theory Spec2Isabelle
  imports
    Complex_Main
    "HOL-Library.Stream"
    "HOL-Library.Char_ord"
    "HOL-Library.List_Lexorder"
begin

section \<open>Numbers, vectors and the p5.js helpers called by final.js\<close>

text \<open>
  The sketch computes with JavaScript numbers. They are modelled as mathematical reals:
  rounding, overflow to infinity and the sign of zero are not modelled. The one
  non-number the modelled handlers can produce from well-formed numbers is the result
  of arithmetic on \<^verbatim>\<open>undefined\<close> (a field read from an empty object), so the
  values that can hold it have the type \<open>num\<close>.

  The functions of p5.js that the sketch calls (\<^verbatim>\<open>map\<close>, \<^verbatim>\<open>constrain\<close>,
  \<^verbatim>\<open>dist\<close>, \<^verbatim>\<open>random\<close>, \<^verbatim>\<open>int\<close> and the methods of \<^verbatim>\<open>p5.Vector\<close>) are
  library code; they are written out here as the library defines them.
\<close>

datatype num = Num real | NaN

definition num_times :: "num \<Rightarrow> real \<Rightarrow> num" where
  "num_times a b = (case a of Num r \<Rightarrow> Num (r * b) | NaN \<Rightarrow> NaN)"

definition num_minus :: "num \<Rightarrow> real \<Rightarrow> num" where
  "num_minus a b = (case a of Num r \<Rightarrow> Num (r - b) | NaN \<Rightarrow> NaN)"

definition TWO_PI :: real where
  "TWO_PI = 2 * pi"

text \<open>\<^verbatim>\<open>map(n, start1, stop1, start2, stop2)\<close> without the optional \<^verbatim>\<open>withinBounds\<close>
  argument: the plain linear re-mapping, not clamped.\<close>

definition p5_map :: "real \<Rightarrow> real \<Rightarrow> real \<Rightarrow> real \<Rightarrow> real \<Rightarrow> real" where
  "p5_map n start1 stop1 start2 stop2 =
     (n - start1) / (stop1 - start1) * (stop2 - start2) + start2"

definition constrain :: "real \<Rightarrow> real \<Rightarrow> real \<Rightarrow> real" where
  "constrain n low high = max (min n high) low"

definition p5_dist :: "real \<Rightarrow> real \<Rightarrow> real \<Rightarrow> real \<Rightarrow> real" where
  "p5_dist x1 y1 x2 y2 = sqrt ((x2 - x1)\<^sup>2 + (y2 - y1)\<^sup>2)"

text \<open>A \<^verbatim>\<open>p5.Vector\<close> in the plane (the sketch never sets the third component).\<close>

datatype vec = createVector (vec_x: real) (vec_y: real)

definition Vector_add :: "vec \<Rightarrow> vec \<Rightarrow> vec" where
  "Vector_add v w = createVector (vec_x v + vec_x w) (vec_y v + vec_y w)"

definition Vector_sub :: "vec \<Rightarrow> vec \<Rightarrow> vec" where
  "Vector_sub v w = createVector (vec_x v - vec_x w) (vec_y v - vec_y w)"

definition Vector_mult :: "vec \<Rightarrow> real \<Rightarrow> vec" where
  "Vector_mult v n = createVector (vec_x v * n) (vec_y v * n)"

definition Vector_mag :: "vec \<Rightarrow> real" where
  "Vector_mag v = sqrt ((vec_x v)\<^sup>2 + (vec_y v)\<^sup>2)"

text \<open>\<^verbatim>\<open>normalize\<close> leaves a vector of length zero as it is.\<close>

definition Vector_normalize :: "vec \<Rightarrow> vec" where
  "Vector_normalize v =
     (let len = Vector_mag v in if len \<noteq> 0 then Vector_mult v (1 / len) else v)"

definition Vector_setMag :: "vec \<Rightarrow> real \<Rightarrow> vec" where
  "Vector_setMag v n = Vector_mult (Vector_normalize v) n"

definition Vector_lerp :: "vec \<Rightarrow> vec \<Rightarrow> real \<Rightarrow> vec" where
  "Vector_lerp v w amt =
     createVector (vec_x v + (vec_x w - vec_x v) * amt) (vec_y v + (vec_y w - vec_y v) * amt)"

definition Vector_dist :: "vec \<Rightarrow> vec \<Rightarrow> real" where
  "Vector_dist v w = Vector_mag (Vector_sub w v)"

definition Vector_fromAngle :: "real \<Rightarrow> vec" where
  "Vector_fromAngle a = createVector (cos a) (sin a)"

text \<open>
  The pseudo-random generator is a stream of draws, each in \<open>[0, 1)\<close>; every call of
  \<^verbatim>\<open>random\<close> takes the head and leaves the tail.
\<close>

type_synonym rng = "real stream"

definition unit_draws :: "rng \<Rightarrow> bool" where
  "unit_draws rs \<longleftrightarrow> (\<forall>u \<in> sset rs. 0 \<le> u \<and> u < 1)"

definition p5_random :: "rng \<Rightarrow> real \<times> rng" where
  "p5_random rs = (shd rs, stl rs)"

definition p5_random_max :: "real \<Rightarrow> rng \<Rightarrow> real \<times> rng" where
  "p5_random_max hi rs = (shd rs * hi, stl rs)"

definition p5_random_range :: "real \<Rightarrow> real \<Rightarrow> rng \<Rightarrow> real \<times> rng" where
  "p5_random_range lo hi rs = (shd rs * (hi - lo) + lo, stl rs)"

definition Vector_random2D :: "rng \<Rightarrow> vec \<times> rng" where
  "Vector_random2D rs = (Vector_fromAngle (shd rs * TWO_PI), stl rs)"

text \<open>
  \<^verbatim>\<open>int(s)\<close> on a string is \<^verbatim>\<open>parseInt(s, 10)\<close>: leading white space and a sign are
  skipped, the longest run of decimal digits is read, and no digit at all gives NaN.
  (The strings \<^verbatim>\<open>Infinity\<close> and \<^verbatim>\<open>-Infinity\<close>, which p5 maps to the infinities, have
  no value among the modelled numbers and read as NaN here.)
\<close>

definition is_digit :: "char \<Rightarrow> bool" where
  "is_digit c \<longleftrightarrow> CHR ''0'' \<le> c \<and> c \<le> CHR ''9''"

definition is_space :: "char \<Rightarrow> bool" where
  "is_space c \<longleftrightarrow> c \<in> {CHR '' '', CHR 0x09, CHR 0x0A, CHR 0x0B, CHR 0x0C, CHR 0x0D}"

definition digit_val :: "char \<Rightarrow> int" where
  "digit_val c = int (of_char c) - 48"

definition p5_int :: "string \<Rightarrow> num" where
  "p5_int s =
     (let s1 = dropWhile is_space s;
          neg = (s1 \<noteq> [] \<and> hd s1 = CHR ''-'');
          s2 = (if s1 \<noteq> [] \<and> (hd s1 = CHR ''-'' \<or> hd s1 = CHR ''+'') then tl s1 else s1);
          ds = takeWhile is_digit s2
      in if ds = [] then NaN
         else Num (of_int ((if neg then - 1 else 1) * foldl (\<lambda>a c. 10 * a + digit_val c) 0 ds)))"


section \<open>The state of the sketch\<close>

datatype mode = Wave | ParticleMode

record config =
  hue :: real
  sat :: real
  bright :: real
  speed :: real
  noiseScale :: real
  particleSize :: real

record particle =
  pos :: vec
  prev :: vec
  vel :: vec
  psize :: num
  phase :: real
  life :: real
  seed :: real

text \<open>
  The globals of final.js together with the p5 system variables it reads. The global
  \<^verbatim>\<open>t\<close> is the field \<open>tm\<close>. The active \<^verbatim>\<open>preset\<close> is an object that is either a copy
  of a template (\<open>Some c\<close>) or the empty object \<^verbatim>\<open>{}\<close> (\<open>None\<close>), all of whose fields
  read as \<^verbatim>\<open>undefined\<close>. The Perlin noise of p5 is the field \<open>noise\<close>. The audio calls
  (Tone.js) touch none of these fields and are left out.
\<close>

record sketch =
  particles :: "particle list"
  mode :: mode
  shapeIndex :: nat
  shapes :: "string list"
  tm :: real
  presets :: "config list"
  curPreset :: num
  preset :: "config option"
  width :: real
  height :: real
  mouseX :: real
  mouseY :: real
  mouseIsPressed :: bool
  noise :: "real \<Rightarrow> real \<Rightarrow> real \<Rightarrow> real"

definition N :: nat where
  "N = 900"

definition gridCols :: real where
  "gridCols = 60"

definition gridRows :: real where
  "gridRows = 40"

text \<open>Reading \<^verbatim>\<open>preset.particleSize\<close>: \<^verbatim>\<open>undefined\<close> on the empty object, and
  \<^verbatim>\<open>undefined\<close> in arithmetic is NaN.\<close>

definition preset_particleSize :: "config option \<Rightarrow> num" where
  "preset_particleSize pr = (case pr of None \<Rightarrow> NaN | Some c \<Rightarrow> Num (particleSize c))"

text \<open>\<^verbatim>\<open>presets[i]\<close>: the element when \<open>i\<close> is an index of the array, \<^verbatim>\<open>undefined\<close>
  otherwise.\<close>

definition presets_at :: "config list \<Rightarrow> num \<Rightarrow> config option" where
  "presets_at cs i =
     (case i of
        NaN \<Rightarrow> None
      | Num r \<Rightarrow>
          if r = of_int \<lfloor>r\<rfloor> \<and> 0 \<le> r \<and> nat \<lfloor>r\<rfloor> < length cs then Some (cs ! nat \<lfloor>r\<rfloor>) else None)"

text \<open>\<^verbatim>\<open>Object.assign({}, src)\<close>: a fresh object with the fields of \<open>src\<close>; an
  \<^verbatim>\<open>undefined\<close> source is skipped and leaves the empty object.\<close>

definition Object_assign_empty :: "config option \<Rightarrow> config option" where
  "Object_assign_empty src = (case src of None \<Rightarrow> None | Some c \<Rightarrow> Some c)"


section \<open>Particle\<close>

text \<open>The constructor draws nine random numbers, in the order of the source.\<close>

definition new_Particle :: "sketch \<Rightarrow> rng \<Rightarrow> particle \<times> rng" where
  "new_Particle st rs =
     (let (r1, rs1) = p5_random_max gridCols rs;
          gx = real_of_int \<lfloor>r1\<rfloor>;
          (r2, rs2) = p5_random_max gridRows rs1;
          gy = real_of_int \<lfloor>r2\<rfloor>;
          (r3, rs3) = p5_random rs2;
          (r4, rs4) = p5_random rs3;
          p0 = createVector (p5_map (gx + r3) 0 gridCols 0 (width st))
                            (p5_map (gy + r4) 0 gridRows 0 (height st));
          (v, rs5) = Vector_random2D rs4;
          (r6, rs6) = p5_random_range 0.7 1.6 rs5;
          (r7, rs7) = p5_random_max TWO_PI rs6;
          (r8, rs8) = p5_random_range 100 10000 rs7;
          (r9, rs9) = p5_random_max 1000 rs8
      in (\<lparr>pos = p0, prev = p0, vel = Vector_mult v 0.2,
           psize = num_times (preset_particleSize (preset st)) r6,
           phase = r7, life = r8, seed = r9\<rparr>, rs9))"

text \<open>The local \<^verbatim>\<open>influence\<close> of \<^verbatim>\<open>update\<close>, as a function of the canvas width and
  the distance \<open>d\<close> to the pointer, and as \<^verbatim>\<open>update\<close> computes it for a particle.\<close>

definition influence_at :: "real \<Rightarrow> real \<Rightarrow> real" where
  "influence_at w d = p5_map d 0 (w * 0.7) 1.0 0"

text \<open>The local \<^verbatim>\<open>d\<close> of \<^verbatim>\<open>update\<close>: the distance from the particle to the
  pointer.\<close>

definition update_dist :: "sketch \<Rightarrow> particle \<Rightarrow> real" where
  "update_dist st p = Vector_dist (pos p) (createVector (mouseX st) (mouseY st))"

definition influence :: "sketch \<Rightarrow> particle \<Rightarrow> real" where
  "influence st p = (let d = update_dist st p in influence_at (width st) d)"

text \<open>The flow vector \<^verbatim>\<open>nvec\<close> of \<^verbatim>\<open>update\<close>.\<close>

definition nvec :: "sketch \<Rightarrow> config \<Rightarrow> particle \<Rightarrow> vec" where
  "nvec st pr p =
     (let ns = noiseScale pr;
          angle = noise st (vec_x (pos p) * ns) (vec_y (pos p) * ns) (tm st + seed p) * TWO_PI * 2
      in Vector_fromAngle angle)"

text \<open>The targets of the two interpolations.\<close>

definition wave_target :: "sketch \<Rightarrow> config \<Rightarrow> particle \<Rightarrow> vec" where
  "wave_target st pr p =
     (let osc = Vector_mult (Vector_fromAngle (phase p + tm st * 2)) 0.4
      in Vector_add (Vector_mult (nvec st pr p) (speed pr * 0.6)) osc)"

definition particle_target :: "sketch \<Rightarrow> config \<Rightarrow> particle \<Rightarrow> vec \<Rightarrow> vec" where
  "particle_target st pr p jitter = Vector_add (Vector_mult (nvec st pr p) (speed pr * 1.4)) jitter"

text \<open>The velocity after the first half of \<^verbatim>\<open>update\<close>: the drag branch, or the
  interpolation of the current mode. Only Particle mode draws a random number.\<close>

definition steer :: "sketch \<Rightarrow> config \<Rightarrow> particle \<Rightarrow> rng \<Rightarrow> vec \<times> rng" where
  "steer st pr p rs =
     (let m = createVector (mouseX st) (mouseY st)
      in if mouseIsPressed st then
           (Vector_add (vel p) (Vector_setMag (Vector_sub m (pos p)) (influence st p * 0.8)), rs)
         else if mode st = Wave then
           (Vector_lerp (vel p) (wave_target st pr p) 0.05, rs)
         else
           (let (v, rs1) = Vector_random2D rs;
                jitter = Vector_mult v 0.5
            in (Vector_lerp (vel p) (particle_target st pr p jitter) 0.06, rs1)))"

text \<open>The boundary wrap: four assignments in sequence, two for each coordinate.\<close>

definition wrap_coord :: "real \<Rightarrow> real \<Rightarrow> real" where
  "wrap_coord extent c =
     (let c1 = (if c < - 50 then extent + 50 else c)
      in if c1 > extent + 50 then - 50 else c1)"

definition wrap :: "sketch \<Rightarrow> vec \<Rightarrow> vec" where
  "wrap st v = createVector (wrap_coord (width st) (vec_x v)) (wrap_coord (height st) (vec_y v))"

text \<open>\<^verbatim>\<open>update\<close>, for an active preset \<open>pr\<close> that is a proper object (with the empty
  object every number it computes would be NaN).\<close>

definition update :: "sketch \<Rightarrow> config \<Rightarrow> particle \<Rightarrow> rng \<Rightarrow> particle \<times> rng" where
  "update st pr p rs =
     (let (v, rs1) = steer st pr p rs
      in (p\<lparr>prev := pos p,
            pos := wrap st (Vector_add (pos p) v),
            vel := v,
            phase := phase p + 0.01 * speed pr,
            life := life p - 0.01\<rparr>, rs1))"

text \<open>The extended canvas: the positions that the wrap is meant to keep.\<close>

definition in_bounds :: "sketch \<Rightarrow> particle \<Rightarrow> bool" where
  "in_bounds st p \<longleftrightarrow>
     - 50 \<le> vec_x (pos p) \<and> vec_x (pos p) \<le> width st + 50 \<and>
     - 50 \<le> vec_y (pos p) \<and> vec_y (pos p) \<le> height st + 50"

text \<open>Repeated calls of \<^verbatim>\<open>update\<close> on one particle, each in the sketch state and with
  the active preset of its own frame.\<close>

fun updates :: "(sketch \<times> config) list \<Rightarrow> particle \<Rightarrow> rng \<Rightarrow> particle \<times> rng" where
  "updates [] p rs = (p, rs)"
| "updates ((st, pr) # fs) p rs = (let (p1, rs1) = update st pr p rs in updates fs p1 rs1)"

text \<open>The alpha of \<^verbatim>\<open>display\<close>, as a function of the canvas width and the distance
  \<open>d\<close> to the pointer, and as \<^verbatim>\<open>display\<close> computes it for a particle.\<close>

definition alpha_at :: "real \<Rightarrow> real \<Rightarrow> real" where
  "alpha_at w d = (let alpha = p5_map d 0 (w * 0.7) 1.0 0.12 in constrain alpha 0.06 1)"

definition pointer_dist :: "sketch \<Rightarrow> particle \<Rightarrow> real" where
  "pointer_dist st p = p5_dist (vec_x (pos p)) (vec_y (pos p)) (mouseX st) (mouseY st)"

definition display_alpha :: "sketch \<Rightarrow> particle \<Rightarrow> real" where
  "display_alpha st p = (let d = pointer_dist st p in alpha_at (width st) d)"


section \<open>Handlers\<close>

text \<open>The loop of \<^verbatim>\<open>applyPreset\<close> over the particles: one draw for each.\<close>

fun resize_all :: "config option \<Rightarrow> particle list \<Rightarrow> rng \<Rightarrow> particle list \<times> rng" where
  "resize_all pr [] rs = ([], rs)"
| "resize_all pr (p # ps) rs =
     (let (r, rs1) = p5_random_range 0.7 1.5 rs;
          (ps', rs2) = resize_all pr ps rs1
      in (p\<lparr>psize := num_times (preset_particleSize pr) r\<rparr> # ps', rs2))"

definition applyPreset :: "num \<Rightarrow> sketch \<Rightarrow> rng \<Rightarrow> sketch \<times> rng" where
  "applyPreset i st rs =
     (let pr = Object_assign_empty (presets_at (presets st) i);
          (ps, rs1) = resize_all pr (particles st) rs
      in (st\<lparr>curPreset := i, preset := pr, particles := ps\<rparr>, rs1))"

text \<open>The active preset is a copy of one of the templates.\<close>

definition valid_preset :: "sketch \<Rightarrow> bool" where
  "valid_preset st \<longleftrightarrow> (\<exists>c \<in> set (presets st). preset st = Some c)"

text \<open>The local \<^verbatim>\<open>d\<close> of \<^verbatim>\<open>mousePressed\<close>: the distance from the pointer to the
  particle.\<close>

definition click_dist :: "sketch \<Rightarrow> particle \<Rightarrow> real" where
  "click_dist st p = p5_dist (mouseX st) (mouseY st) (vec_x (pos p)) (vec_y (pos p))"

text \<open>The burst of \<^verbatim>\<open>mousePressed\<close>: a draw is taken only for a particle closer than
  140 to the pointer.\<close>

fun burst :: "sketch \<Rightarrow> particle list \<Rightarrow> rng \<Rightarrow> particle list \<times> rng" where
  "burst st [] rs = ([], rs)"
| "burst st (p # ps) rs =
     (let d = click_dist st p
      in if d < 140 then
           (let (r, rs1) = p5_random_range 0.6 2.2 rs;
                pushVec = Vector_setMag
                            (Vector_sub (pos p) (createVector (mouseX st) (mouseY st))) r;
                (ps', rs2) = burst st ps rs1
            in (p\<lparr>vel := Vector_add (vel p) pushVec\<rparr> # ps', rs2))
         else
           (let (ps', rs2) = burst st ps rs
            in (p # ps', rs2)))"

definition mousePressed :: "sketch \<Rightarrow> rng \<Rightarrow> sketch \<times> rng" where
  "mousePressed st rs =
     (let st1 = st\<lparr>shapeIndex := (shapeIndex st + 1) mod length (shapes st)\<rparr>;
          (ps, rs1) = burst st1 (particles st1) rs
      in (st1\<lparr>particles := ps\<rparr>, rs1))"

text \<open>What the body of that loop does to one particle, for the draw \<open>u\<close> it takes (when
  it takes one).\<close>

definition pushed :: "sketch \<Rightarrow> particle \<Rightarrow> real \<Rightarrow> particle" where
  "pushed st p u =
     (if click_dist st p < 140 then
        p\<lparr>vel := Vector_add (vel p)
                  (Vector_setMag (Vector_sub (pos p) (createVector (mouseX st) (mouseY st)))
                     (u * (2.2 - 0.6) + 0.6))\<rparr>
      else p)"

text \<open>The loop of the reseed command: three draws for each particle.\<close>

fun reseed_all :: "sketch \<Rightarrow> particle list \<Rightarrow> rng \<Rightarrow> particle list \<times> rng" where
  "reseed_all st [] rs = ([], rs)"
| "reseed_all st (p # ps) rs =
     (let (rx, rs1) = p5_random_max (width st) rs;
          (ry, rs2) = p5_random_max (height st) rs1;
          (v, rs3) = Vector_random2D rs2;
          (ps', rs4) = reseed_all st ps rs3
      in (p\<lparr>pos := createVector rx ry, vel := Vector_mult v 0.2\<rparr> # ps', rs4))"

text \<open>
  \<^verbatim>\<open>keyPressed\<close>, for the value \<open>key\<close> of the p5 variable of that name. The comparisons
  \<^verbatim>\<open>key >= "1" && key <= "4"\<close> are comparisons of strings, in lexicographic order.
  \<open>seeded\<close> is the sequence of draws that the generator yields once
  \<^verbatim>\<open>randomSeed(millis())\<close> has re-initialised it. \<^verbatim>\<open>saveCanvas\<close> and
  \<^verbatim>\<open>noiseSeed\<close> change no field of the state.
\<close>

definition keyPressed :: "string \<Rightarrow> rng \<Rightarrow> sketch \<Rightarrow> rng \<Rightarrow> sketch \<times> rng" where
  "keyPressed key seeded st rs =
     (if key = '' '' then
        (st\<lparr>mode := (if mode st = Wave then ParticleMode else Wave)\<rparr>, rs)
      else if key = ''s'' \<or> key = ''S'' then (st, rs)
      else if key \<ge> ''1'' \<and> key \<le> ''4'' then applyPreset (num_minus (p5_int key) 1) st rs
      else if key = ''r'' \<or> key = ''R'' then
        (let (ps, rs1) = reseed_all st (particles st) seeded
         in (st\<lparr>particles := ps\<rparr>, rs1))
      else (st, rs))"

text \<open>The four templates that \<^verbatim>\<open>setup\<close> stores in \<^verbatim>\<open>presets\<close>.\<close>

definition setup_presets :: "config list" where
  "setup_presets =
     [\<lparr>hue = 42, sat = 85, bright = 70, speed = 0.8, noiseScale = 0.0014, particleSize = 3.0\<rparr>,
      \<lparr>hue = 200, sat = 70, bright = 85, speed = 1.2, noiseScale = 0.002, particleSize = 2.2\<rparr>,
      \<lparr>hue = 280, sat = 65, bright = 90, speed = 0.6, noiseScale = 0.001, particleSize = 3.8\<rparr>,
      \<lparr>hue = 30, sat = 90, bright = 95, speed = 1.5, noiseScale = 0.0026, particleSize = 1.8\<rparr>]"

text \<open>The loop of \<^verbatim>\<open>setup\<close> that pushes the particles.\<close>

fun spawn :: "nat \<Rightarrow> sketch \<Rightarrow> rng \<Rightarrow> sketch \<times> rng" where
  "spawn 0 st rs = (st, rs)"
| "spawn (Suc n) st rs =
     (let (p, rs1) = new_Particle st rs
      in spawn n (st\<lparr>particles := particles st @ [p]\<rparr>) rs1)"

text \<open>\<^verbatim>\<open>setup\<close> for a window of the given size. \<open>st0\<close> holds the globals as they are
  when \<^verbatim>\<open>applyPreset(0)\<close> is called: the values of their declarations, the canvas
  created and the templates stored. The global \<^verbatim>\<open>preset\<close> does not exist yet at that
  point; \<^verbatim>\<open>applyPreset\<close> assigns it before anything reads it.\<close>

definition sketch_setup :: "real \<Rightarrow> real \<Rightarrow> (real \<Rightarrow> real \<Rightarrow> real \<Rightarrow> real) \<Rightarrow> rng \<Rightarrow> sketch \<times> rng" where
  "sketch_setup windowWidth windowHeight nz rs =
     (let st0 = \<lparr>particles = [], mode = Wave, shapeIndex = 0,
                 shapes = [''circle'', ''square'', ''triangle'', ''star''],
                 tm = 0, presets = setup_presets, curPreset = Num 0, preset = None,
                 width = windowWidth, height = windowHeight, mouseX = 0, mouseY = 0,
                 mouseIsPressed = False, noise = nz\<rparr>;
          (st1, rs1) = applyPreset (Num 0) st0 rs
      in spawn N st1 rs1)"


section \<open>Concrete states for instantiating the theorems\<close>

text \<open>A canvas of 1000 by 700 with the first template active, no particle yet, the
  pointer in the corner, and a noise that is 0 everywhere.\<close>

definition sample_sketch :: sketch where
  "sample_sketch =
     \<lparr>particles = [], mode = Wave, shapeIndex = 0,
      shapes = [''circle'', ''square'', ''triangle'', ''star''],
      tm = 0, presets = setup_presets, curPreset = Num 0, preset = Some (setup_presets ! 0),
      width = 1000, height = 700, mouseX = 0, mouseY = 0,
      mouseIsPressed = False, noise = (\<lambda>a b c. 0)\<rparr>"

definition sample_particle :: "real \<Rightarrow> real \<Rightarrow> particle" where
  "sample_particle a b =
     \<lparr>pos = createVector a b, prev = createVector a b, vel = createVector 1 0,
      psize = Num 3, phase = 0, life = 100, seed = 0\<rparr>"

definition sample_with :: "particle list \<Rightarrow> real \<Rightarrow> real \<Rightarrow> sketch" where
  "sample_with ps mx my = sample_sketch\<lparr>particles := ps, mouseX := mx, mouseY := my\<rparr>"


section \<open>Facts about the helpers\<close>

lemma p5_dist_nonneg: "0 \<le> p5_dist x1 y1 x2 y2"
  by (simp add: p5_dist_def)

lemma p5_dist_same_y: "p5_dist x1 y x2 y = \<bar>x2 - x1\<bar>"
  by (simp add: p5_dist_def)

lemma Vector_mag_nonneg: "0 \<le> Vector_mag v"
  by (simp add: Vector_mag_def)

lemma Vector_mag_cmod: "Vector_mag v = cmod (Complex (vec_x v) (vec_y v))"
  by (simp add: Vector_mag_def cmod_def)

lemma Vector_mag_add: "Vector_mag (Vector_add v w) \<le> Vector_mag v + Vector_mag w"
proof -
  have "Complex (vec_x v) (vec_y v) + Complex (vec_x w) (vec_y w)
          = Complex (vec_x v + vec_x w) (vec_y v + vec_y w)"
    by (simp add: complex_eq_iff)
  then show ?thesis
    using norm_triangle_ineq [of "Complex (vec_x v) (vec_y v)" "Complex (vec_x w) (vec_y w)"]
    by (simp add: Vector_mag_cmod Vector_add_def)
qed

lemma Vector_mag_sub: "Vector_mag (Vector_sub v w) \<le> Vector_mag v + Vector_mag w"
proof -
  have "Complex (vec_x v) (vec_y v) - Complex (vec_x w) (vec_y w)
          = Complex (vec_x v - vec_x w) (vec_y v - vec_y w)"
    by (simp add: complex_eq_iff)
  then show ?thesis
    using norm_triangle_ineq4 [of "Complex (vec_x v) (vec_y v)" "Complex (vec_x w) (vec_y w)"]
    by (simp add: Vector_mag_cmod Vector_sub_def)
qed

lemma Vector_mag_mult: "Vector_mag (Vector_mult v c) = \<bar>c\<bar> * Vector_mag v"
proof -
  have "(vec_x v * c)\<^sup>2 + (vec_y v * c)\<^sup>2 = c\<^sup>2 * ((vec_x v)\<^sup>2 + (vec_y v)\<^sup>2)"
    by (simp add: power_mult_distrib algebra_simps)
  then show ?thesis
    by (simp add: Vector_mag_def Vector_mult_def real_sqrt_mult)
qed

lemma Vector_mag_fromAngle: "Vector_mag (Vector_fromAngle a) = 1"
  by (simp add: Vector_mag_def Vector_fromAngle_def)

lemma Vector_dist_nonneg: "0 \<le> Vector_dist v w"
  by (simp add: Vector_dist_def Vector_mag_nonneg)

lemma Vector_dist_same_y:
  "Vector_dist (createVector a c) (createVector b c) = \<bar>b - a\<bar>"
  by (simp add: Vector_dist_def Vector_mag_def Vector_sub_def)

lemma Vector_setMag_x_axis:
  "0 < a \<Longrightarrow> Vector_setMag (createVector a 0) n = createVector n 0"
  by (simp add: Vector_setMag_def Vector_normalize_def Vector_mag_def Vector_mult_def Let_def)

lemma Vector_sub_add_cancel: "Vector_sub (Vector_add v w) v = w"
  by (simp add: Vector_sub_def Vector_add_def)

lemma Vector_mult_mult: "Vector_mult (Vector_mult v a) b = Vector_mult v (a * b)"
  by (simp add: Vector_mult_def mult.assoc)

lemma Vector_setMag_pos:
  "0 < Vector_mag v \<Longrightarrow> Vector_setMag v n = Vector_mult v (n / Vector_mag v)"
  by (simp add: Vector_setMag_def Vector_normalize_def Let_def Vector_mult_mult)

lemma Vector_setMag_zero: "Vector_mag v = 0 \<Longrightarrow> Vector_setMag v n = createVector 0 0"
proof -
  assume "Vector_mag v = 0"
  then have z: "vec_x v = 0 \<and> vec_y v = 0"
    by (simp add: Vector_mag_def sum_power2_eq_zero_iff)
  then show ?thesis
    by (simp add: Vector_setMag_def Vector_normalize_def Let_def Vector_mult_def Vector_mag_def)
qed

lemma Vector_mag_setMag:
  "0 < Vector_mag v \<Longrightarrow> 0 \<le> n \<Longrightarrow> Vector_mag (Vector_setMag v n) = n"
  by (simp add: Vector_setMag_pos Vector_mag_mult)

lemma unit_draws_sconst: "0 \<le> u \<Longrightarrow> u < 1 \<Longrightarrow> unit_draws (sconst u)"
  by (simp add: unit_draws_def)

lemma unit_draws_stl: "unit_draws rs \<Longrightarrow> unit_draws (stl rs)"
  by (auto simp add: unit_draws_def dest: stl_sset)

lemma unit_draws_shd: "unit_draws rs \<Longrightarrow> 0 \<le> shd rs \<and> shd rs < 1"
  by (simp add: unit_draws_def shd_sset)

lemma unit_draws_sdrop: "unit_draws rs \<Longrightarrow> unit_draws (sdrop n rs)"
  by (induction n arbitrary: rs) (simp_all add: unit_draws_stl)

lemma scale_lower: "0 \<le> a \<Longrightarrow> lo \<le> f \<Longrightarrow> lo * a \<le> a * (f::real)"
  by (simp add: mult.commute mult_left_mono)

lemma scale_upper: "0 \<le> a \<Longrightarrow> f \<le> hi \<Longrightarrow> a * f \<le> hi * (a::real)"
  by (simp add: mult.commute mult_left_mono)

lemma scale_upper_strict: "0 < a \<Longrightarrow> f < hi \<Longrightarrow> a * f < hi * (a::real)"
  by (simp add: mult.commute)


section \<open>The alpha of display\<close>

lemma alpha_at_mono: "0 < w \<Longrightarrow> d \<le> d' \<Longrightarrow> alpha_at w d' \<le> alpha_at w d"
proof -
  assume w: "0 < w" and le: "d \<le> d'"
  have "d / (w * 0.7) \<le> d' / (w * 0.7)"
    using w le by (simp add: divide_right_mono)
  then have "p5_map d' 0 (w * 0.7) 1.0 0.12 \<le> p5_map d 0 (w * 0.7) 1.0 0.12"
    by (simp add: p5_map_def)
  then show ?thesis
    by (simp add: alpha_at_def constrain_def Let_def min_def max_def)
qed

lemma alpha_at_range: "0.06 \<le> alpha_at w d \<and> alpha_at w d \<le> 1"
  by (simp add: alpha_at_def constrain_def Let_def min_def max_def)

lemma alpha_at_zero: "0 < w \<Longrightarrow> alpha_at w 0 = 1"
  by (simp add: alpha_at_def constrain_def p5_map_def)

lemma alpha_at_edge: "0 < w \<Longrightarrow> alpha_at w (0.7 * w) = 0.12"
  by (simp add: alpha_at_def constrain_def p5_map_def mult.commute)

text \<open>
  Claim C7. On a canvas of positive width, the alpha that \<^verbatim>\<open>display\<close> computes from
  the distance \<open>d\<close> between the particle and the pointer does not increase when \<open>d\<close>
  grows, lies in \<open>[0.06, 1]\<close>, is \<open>1.0\<close> at \<open>d = 0\<close> and is \<open>0.12\<close> at
  \<open>d = 0.7 * width\<close>.
\<close>

theorem display_alpha_fades:
  assumes "0 < width st"
  shows "(\<forall>p q. pointer_dist st p \<le> pointer_dist st q \<longrightarrow> display_alpha st q \<le> display_alpha st p)
       \<and> (\<forall>p. 0.06 \<le> display_alpha st p \<and> display_alpha st p \<le> 1)
       \<and> (\<forall>p. pointer_dist st p = 0 \<longrightarrow> display_alpha st p = 1.0)
       \<and> (\<forall>p. pointer_dist st p = 0.7 * width st \<longrightarrow> display_alpha st p = 0.12)"
proof (intro conjI allI impI)
  fix p q
  assume "pointer_dist st p \<le> pointer_dist st q"
  then show "display_alpha st q \<le> display_alpha st p"
    unfolding display_alpha_def Let_def using assms by (rule alpha_at_mono [rotated])
next
  fix p
  show "0.06 \<le> display_alpha st p" and "display_alpha st p \<le> 1"
    unfolding display_alpha_def Let_def using alpha_at_range by blast+
next
  fix p
  assume "pointer_dist st p = 0"
  then show "display_alpha st p = 1.0"
    unfolding display_alpha_def Let_def using alpha_at_zero [OF assms] by simp
next
  fix p
  assume "pointer_dist st p = 0.7 * width st"
  then show "display_alpha st p = 0.12"
    unfolding display_alpha_def Let_def by (simp only: alpha_at_edge [OF assms])
qed

theorem display_alpha_fades_witness:
  "0 < width sample_sketch
   \<and> pointer_dist sample_sketch (sample_particle 0 0) = 0
   \<and> pointer_dist sample_sketch (sample_particle 700 0) = 0.7 * width sample_sketch
   \<and> display_alpha sample_sketch (sample_particle 0 0) = 1.0
   \<and> display_alpha sample_sketch (sample_particle 700 0) = 0.12
   \<and> display_alpha sample_sketch (sample_particle 700 0) \<le> display_alpha sample_sketch (sample_particle 0 0)"
proof -
  have w: "0 < width sample_sketch"
    by (simp add: sample_sketch_def)
  have d0: "pointer_dist sample_sketch (sample_particle 0 0) = 0"
    by (simp add: pointer_dist_def sample_sketch_def sample_particle_def p5_dist_same_y)
  have d1: "pointer_dist sample_sketch (sample_particle 700 0) = 0.7 * width sample_sketch"
    by (simp add: pointer_dist_def sample_sketch_def sample_particle_def p5_dist_same_y)
  show ?thesis
    using display_alpha_fades [OF w] w d0 d1 by simp
qed


section \<open>The influence of the pointer\<close>

lemma influence_at_eq: "influence_at w d = 1 - d / (0.7 * w)"
  by (simp add: influence_at_def p5_map_def)

lemma influence_at_zero: "influence_at w 0 = 1"
  by (simp add: influence_at_eq)

lemma influence_at_edge: "0 < w \<Longrightarrow> influence_at w (0.7 * w) = 0"
  by (simp add: influence_at_eq)

lemma influence_at_inside: "0 < w \<Longrightarrow> 0 \<le> d \<Longrightarrow> d \<le> 0.7 * w \<Longrightarrow> 0 \<le> influence_at w d \<and> influence_at w d \<le> 1"
  by (simp add: influence_at_eq field_simps)

lemma influence_at_outside: "0 < w \<Longrightarrow> 0.7 * w < d \<Longrightarrow> influence_at w d < 0"
  by (simp add: influence_at_eq field_simps)

text \<open>
  Claim C1, as stated, fails: \<^verbatim>\<open>map\<close> is called without its clamping argument, so a
  particle at distance 1400 from the pointer on a canvas of width 1000 has influence
  \<open>- 1\<close>, outside \<open>[0, 1]\<close>.
\<close>

theorem influence_not_clamped:
  "\<not> (0 \<le> influence (sample_sketch\<lparr>mouseX := 1400\<rparr>) (sample_particle 0 0)
      \<and> influence (sample_sketch\<lparr>mouseX := 1400\<rparr>) (sample_particle 0 0) \<le> 1)"
  by (simp add: influence_def update_dist_def Let_def influence_at_eq sample_sketch_def sample_particle_def Vector_dist_same_y)

text \<open>
  Claim C1, amended. On a canvas of positive width the influence is
  \<open>1 - d / (0.7 * width)\<close> for the distance \<open>d\<close> between particle and pointer: it is 1
  at \<open>d = 0\<close>, 0 at \<open>d = 0.7 * width\<close>, in \<open>[0, 1]\<close> for \<open>d \<le> 0.7 * width\<close>, and
  negative beyond; it is not clamped. In the drag branch the velocity gains the vector
  towards the pointer set to the magnitude \<open>influence * 0.8\<close>, whatever its sign.
\<close>

theorem influence_linear:
  assumes "0 < width st"
  shows "influence st p = 1 - update_dist st p / (0.7 * width st)
       \<and> (update_dist st p = 0 \<longrightarrow> influence st p = 1)
       \<and> (update_dist st p = 0.7 * width st \<longrightarrow> influence st p = 0)
       \<and> (update_dist st p \<le> 0.7 * width st \<longrightarrow> 0 \<le> influence st p \<and> influence st p \<le> 1)
       \<and> (0.7 * width st < update_dist st p \<longrightarrow> influence st p < 0)
       \<and> (mouseIsPressed st \<longrightarrow>
            vel (fst (update st pr p rs)) =
              Vector_add (vel p)
                (Vector_setMag (Vector_sub (createVector (mouseX st) (mouseY st)) (pos p))
                   (influence st p * 0.8)))"
proof (intro conjI impI)
  show "influence st p = 1 - update_dist st p / (0.7 * width st)"
    unfolding influence_def Let_def by (rule influence_at_eq)
next
  assume "update_dist st p = 0"
  then show "influence st p = 1"
    unfolding influence_def Let_def by (simp only: influence_at_zero)
next
  assume "update_dist st p = 0.7 * width st"
  then show "influence st p = 0"
    unfolding influence_def Let_def by (simp only: influence_at_edge [OF assms])
next
  assume le: "update_dist st p \<le> 0.7 * width st"
  have "0 \<le> update_dist st p"
    unfolding update_dist_def by (rule Vector_dist_nonneg)
  then show "0 \<le> influence st p" and "influence st p \<le> 1"
    using influence_at_inside [OF assms _ le] unfolding influence_def Let_def by blast+
next
  assume "0.7 * width st < update_dist st p"
  then show "influence st p < 0"
    unfolding influence_def Let_def by (rule influence_at_outside [OF assms])
next
  assume "mouseIsPressed st"
  then show "vel (fst (update st pr p rs)) =
              Vector_add (vel p)
                (Vector_setMag (Vector_sub (createVector (mouseX st) (mouseY st)) (pos p))
                   (influence st p * 0.8))"
    by (simp add: update_def steer_def Let_def)
qed

theorem influence_linear_witness:
  "0 < width sample_sketch
   \<and> update_dist (sample_sketch\<lparr>mouseX := 700\<rparr>) (sample_particle 0 0)
       = 0.7 * width (sample_sketch\<lparr>mouseX := 700\<rparr>)
   \<and> influence (sample_sketch\<lparr>mouseX := 700\<rparr>) (sample_particle 0 0) = 0
   \<and> update_dist sample_sketch (sample_particle 0 0) = 0
   \<and> influence sample_sketch (sample_particle 0 0) = 1
   \<and> 0.7 * width (sample_sketch\<lparr>mouseX := 1400, mouseIsPressed := True\<rparr>)
       < update_dist (sample_sketch\<lparr>mouseX := 1400, mouseIsPressed := True\<rparr>) (sample_particle 0 0)
   \<and> influence (sample_sketch\<lparr>mouseX := 1400, mouseIsPressed := True\<rparr>) (sample_particle 0 0) = - 1
   \<and> mouseIsPressed (sample_sketch\<lparr>mouseX := 1400, mouseIsPressed := True\<rparr>)
   \<and> vel (fst (update (sample_sketch\<lparr>mouseX := 1400, mouseIsPressed := True\<rparr>)
                  (setup_presets ! 0) (sample_particle 0 0) (sconst 0)))
       = createVector (1 / 5) 0"
proof -
  have w: "0 < width sample_sketch" "0 < width (sample_sketch\<lparr>mouseX := 700\<rparr>)"
    "0 < width (sample_sketch\<lparr>mouseX := 1400, mouseIsPressed := True\<rparr>)"
    by (simp_all add: sample_sketch_def)
  have d: "update_dist (sample_sketch\<lparr>mouseX := 700\<rparr>) (sample_particle 0 0) = 700"
    "update_dist sample_sketch (sample_particle 0 0) = 0"
    "update_dist (sample_sketch\<lparr>mouseX := 1400, mouseIsPressed := True\<rparr>) (sample_particle 0 0) = 1400"
    by (simp_all add: update_dist_def sample_sketch_def sample_particle_def Vector_dist_same_y)
  have e: "width sample_sketch = 1000" "mouseX sample_sketch = 0" "mouseY sample_sketch = 0"
    "pos (sample_particle 0 0) = createVector 0 0" "vel (sample_particle 0 0) = createVector 1 0"
    by (simp_all add: sample_sketch_def sample_particle_def)
  show ?thesis
    using influence_linear [OF w(1), of "sample_particle 0 0"]
          influence_linear [OF w(2), of "sample_particle 0 0"]
          influence_linear [OF w(3), of "sample_particle 0 0" "setup_presets ! 0" "sconst 0"]
    by (simp add: d e Vector_sub_def Vector_add_def Vector_setMag_x_axis)
qed


section \<open>The boundary wrap\<close>

lemma wrap_coord_bounds:
  "0 \<le> e \<Longrightarrow> - 50 \<le> wrap_coord e c \<and> wrap_coord e c \<le> e + 50"
  by (simp add: wrap_coord_def Let_def)

lemma update_pos:
  "pos (fst (update st pr p rs)) = wrap st (Vector_add (pos p) (fst (steer st pr p rs)))"
  by (simp add: update_def split_def Let_def)

lemma update_in_bounds:
  assumes "0 \<le> width st" and "0 \<le> height st"
  shows "in_bounds st (fst (update st pr p rs))"
  using wrap_coord_bounds [OF assms(1)] wrap_coord_bounds [OF assms(2)]
  by (simp add: in_bounds_def update_pos wrap_def)

lemma updates_snoc:
  "updates (fs @ [(st, pr)]) p rs =
     update st pr (fst (updates fs p rs)) (snd (updates fs p rs))"
  by (induction fs p rs rule: updates.induct) (simp_all add: split_def Let_def)

lemma steer_sample: "fst (steer sample_sketch (setup_presets ! 0) (sample_particle a b) rs) = createVector (497/500) 0"
  by (simp add: steer_def sample_sketch_def sample_particle_def setup_presets_def Let_def
        wave_target_def nvec_def Vector_lerp_def Vector_add_def Vector_mult_def Vector_fromAngle_def)

text \<open>
  Claim C2. After any non-empty sequence of calls of \<^verbatim>\<open>update\<close>, from any particle
  (any position, any velocity), the position lies in
  \<open>[-50, width + 50] \<times> [-50, height + 50]\<close> of the canvas of the last call, provided
  that canvas has non-negative width and height. A single call is the sequence of
  length one, and the bound holds again after each further call.
\<close>

theorem update_wrap_invariant:
  assumes "fs \<noteq> []"
    and "0 \<le> width (fst (last fs))" and "0 \<le> height (fst (last fs))"
  shows "in_bounds (fst (last fs)) (fst (updates fs p rs))"
proof -
  obtain gs st pr where fs: "fs = gs @ [(st, pr)]"
    using assms(1) by (metis append_butlast_last_id surj_pair)
  have "in_bounds st (fst (update st pr (fst (updates gs p rs)) (snd (updates gs p rs))))"
    using assms(2,3) fs by (intro update_in_bounds) simp_all
  then show ?thesis
    by (simp add: fs updates_snoc)
qed

theorem update_wrap_invariant_witness:
  "[(sample_sketch, setup_presets ! 0), (sample_sketch, setup_presets ! 0)] \<noteq> []
   \<and> 0 \<le> width sample_sketch \<and> 0 \<le> height sample_sketch
   \<and> pos (fst (update sample_sketch (setup_presets ! 0) (sample_particle (2099 / 2) (- 50)) (sconst 0)))
       = createVector (- 50) (- 50)
   \<and> in_bounds sample_sketch
       (fst (updates [(sample_sketch, setup_presets ! 0), (sample_sketch, setup_presets ! 0)]
              (sample_particle (2099 / 2) (- 50)) (sconst 0)))"
proof -
  have w: "0 \<le> width sample_sketch" and h: "0 \<le> height sample_sketch"
    by (simp_all add: sample_sketch_def)
  have one: "pos (fst (update sample_sketch (setup_presets ! 0) (sample_particle (2099 / 2) (- 50)) (sconst 0)))
       = createVector (- 50) (- 50)"
    by (simp add: update_pos steer_sample)
       (simp add: wrap_def wrap_coord_def Vector_add_def sample_sketch_def sample_particle_def)
  show ?thesis
    using update_wrap_invariant
            [of "[(sample_sketch, setup_presets ! 0), (sample_sketch, setup_presets ! 0)]"
                "sample_particle (2099 / 2) (- 50)" "sconst 0"]
          w h one
    by simp
qed


section \<open>Steering without the pointer pressed\<close>

lemma lerp_delta: "Vector_sub (Vector_lerp v w a) v = Vector_mult (Vector_sub w v) a"
  by (simp add: Vector_sub_def Vector_lerp_def Vector_mult_def)

lemma nvec_unit: "Vector_mag (nvec st pr p) = 1"
  by (simp add: nvec_def Let_def Vector_mag_fromAngle)

lemma wave_target_bound:
  assumes "0 \<le> speed pr"
  shows "Vector_mag (wave_target st pr p) \<le> speed pr * 0.6 + 0.4"
proof -
  have "Vector_mag (wave_target st pr p)
          \<le> Vector_mag (Vector_mult (nvec st pr p) (speed pr * 0.6))
            + Vector_mag (Vector_mult (Vector_fromAngle (phase p + tm st * 2)) 0.4)"
    unfolding wave_target_def Let_def by (rule Vector_mag_add)
  also have "\<dots> = speed pr * 0.6 + 0.4"
    using assms by (simp add: Vector_mag_mult nvec_unit Vector_mag_fromAngle)
  finally show ?thesis .
qed

lemma lerp_step_bound:
  "Vector_mag (Vector_sub (Vector_lerp v w 0.05) v) \<le> 0.05 * (Vector_mag w + Vector_mag v)"
proof -
  have "Vector_mag (Vector_sub (Vector_lerp v w 0.05) v) = 0.05 * Vector_mag (Vector_sub w v)"
    by (simp add: lerp_delta Vector_mag_mult)
  also have "\<dots> \<le> 0.05 * (Vector_mag w + Vector_mag v)"
    using Vector_mag_sub [of w v] by simp
  finally show ?thesis .
qed

lemma update_vel: "vel (fst (update st pr p rs)) = fst (steer st pr p rs)"
  by (simp add: update_def split_def Let_def)

lemma jitter_mag: "Vector_mag (Vector_mult (fst (Vector_random2D rs)) 0.5) = 0.5"
  by (simp add: Vector_random2D_def Vector_mag_mult Vector_mag_fromAngle)

text \<open>
  Claim C3. With the pointer not pressed, the new velocity is the interpolation of the
  old one towards a target: with weight 0.05 in Wave mode, the target being the flow
  unit vector scaled by \<open>speed * 0.6\<close> plus the unit vector of angle \<open>phase + t * 2\<close>
  scaled by 0.4; with weight 0.06 in Particle mode, the target being the flow unit
  vector scaled by \<open>speed * 1.4\<close> plus a jitter of magnitude 0.5 in the drawn direction.
  In Wave mode the change of velocity has magnitude at most
  \<open>0.05 * (|target| + |vel|)\<close>, and \<open>|target| \<le> speed * 0.6 + 0.4\<close> for a speed that is
  not negative.
\<close>

theorem idle_velocity_lerp:
  assumes "\<not> mouseIsPressed st" and "0 \<le> speed pr"
  shows "Vector_mag (nvec st pr p) = 1
       \<and> (mode st = Wave \<longrightarrow>
            vel (fst (update st pr p rs)) = Vector_lerp (vel p) (wave_target st pr p) 0.05
          \<and> wave_target st pr p =
              Vector_add (Vector_mult (nvec st pr p) (speed pr * 0.6))
                         (Vector_mult (Vector_fromAngle (phase p + tm st * 2)) 0.4)
          \<and> Vector_mag (Vector_sub (vel (fst (update st pr p rs))) (vel p))
              \<le> 0.05 * (Vector_mag (wave_target st pr p) + Vector_mag (vel p))
          \<and> Vector_mag (wave_target st pr p) \<le> speed pr * 0.6 + 0.4)
       \<and> (mode st = ParticleMode \<longrightarrow>
            (\<exists>jitter. jitter = Vector_mult (fst (Vector_random2D rs)) 0.5
               \<and> Vector_mag jitter = 0.5
               \<and> vel (fst (update st pr p rs)) =
                   Vector_lerp (vel p)
                     (Vector_add (Vector_mult (nvec st pr p) (speed pr * 1.4)) jitter) 0.06))"
proof (intro conjI impI)
  show "Vector_mag (nvec st pr p) = 1"
    by (rule nvec_unit)
next
  assume wave: "mode st = Wave"
  show v: "vel (fst (update st pr p rs)) = Vector_lerp (vel p) (wave_target st pr p) 0.05"
    using assms(1) wave by (simp add: update_vel steer_def)
  show "wave_target st pr p =
              Vector_add (Vector_mult (nvec st pr p) (speed pr * 0.6))
                         (Vector_mult (Vector_fromAngle (phase p + tm st * 2)) 0.4)"
    by (simp add: wave_target_def)
  show "Vector_mag (Vector_sub (vel (fst (update st pr p rs))) (vel p))
              \<le> 0.05 * (Vector_mag (wave_target st pr p) + Vector_mag (vel p))"
    unfolding v by (rule lerp_step_bound)
  show "Vector_mag (wave_target st pr p) \<le> speed pr * 0.6 + 0.4"
    using assms(2) by (rule wave_target_bound)
next
  assume part: "mode st = ParticleMode"
  have "vel (fst (update st pr p rs)) =
          Vector_lerp (vel p)
            (Vector_add (Vector_mult (nvec st pr p) (speed pr * 1.4))
               (Vector_mult (fst (Vector_random2D rs)) 0.5)) 0.06"
    using assms(1) part
    by (simp add: update_vel steer_def particle_target_def split_def Let_def)
  then show "\<exists>jitter. jitter = Vector_mult (fst (Vector_random2D rs)) 0.5
               \<and> Vector_mag jitter = 0.5
               \<and> vel (fst (update st pr p rs)) =
                   Vector_lerp (vel p)
                     (Vector_add (Vector_mult (nvec st pr p) (speed pr * 1.4)) jitter) 0.06"
    using jitter_mag [of rs] by blast
qed

theorem idle_velocity_lerp_witness:
  "\<not> mouseIsPressed sample_sketch \<and> 0 \<le> speed (setup_presets ! 0) \<and> mode sample_sketch = Wave
   \<and> vel (fst (update sample_sketch (setup_presets ! 0) (sample_particle 0 0) (sconst 0)))
       = Vector_lerp (createVector 1 0) (createVector (22 / 25) 0) 0.05
   \<and> Vector_mag (wave_target sample_sketch (setup_presets ! 0) (sample_particle 0 0)) \<le> 22 / 25
   \<and> mode (sample_sketch\<lparr>mode := ParticleMode\<rparr>) = ParticleMode
   \<and> vel (fst (update (sample_sketch\<lparr>mode := ParticleMode\<rparr>) (setup_presets ! 0) (sample_particle 0 0) (sconst 0)))
       = Vector_lerp (createVector 1 0) (createVector (81 / 50) 0) 0.06"
proof -
  have a: "\<not> mouseIsPressed sample_sketch" and a': "\<not> mouseIsPressed (sample_sketch\<lparr>mode := ParticleMode\<rparr>)"
    and b: "0 \<le> speed (setup_presets ! 0)"
    and c: "mode sample_sketch = Wave"
    by (simp_all add: sample_sketch_def setup_presets_def)
  have t: "wave_target sample_sketch (setup_presets ! 0) (sample_particle 0 0) = createVector (22 / 25) 0"
    by (simp add: wave_target_def nvec_def sample_sketch_def sample_particle_def setup_presets_def
          Vector_add_def Vector_mult_def Vector_fromAngle_def)
  have n: "nvec (sample_sketch\<lparr>mode := ParticleMode\<rparr>) (setup_presets ! 0) (sample_particle 0 0) = createVector 1 0"
    by (simp add: nvec_def sample_sketch_def sample_particle_def Vector_fromAngle_def)
  have j: "Vector_random2D (sconst 0) = (createVector 1 0, sconst 0)"
    by (simp add: Vector_random2D_def Vector_fromAngle_def)
  have s: "speed (setup_presets ! 0) = 4 / 5" and v: "vel (sample_particle 0 0) = createVector 1 0"
    by (simp_all add: setup_presets_def sample_particle_def)
  show ?thesis
    using idle_velocity_lerp [OF a b, of "sample_particle 0 0" "sconst 0"]
          idle_velocity_lerp [OF a' b, of "sample_particle 0 0" "sconst 0"]
          a b c
    by (simp add: t n j s v Vector_add_def Vector_mult_def)
qed


section \<open>The click\<close>

lemma click_dist_mag:
  "click_dist st p = Vector_mag (Vector_sub (pos p) (createVector (mouseX st) (mouseY st)))"
  by (simp add: click_dist_def p5_dist_def Vector_mag_def Vector_sub_def)

lemma burst_length: "length (fst (burst st ps rs)) = length ps"
  by (induction ps arbitrary: rs) (simp_all add: Let_def split_def)

lemma burst_nth:
  "k < length ps \<Longrightarrow> \<exists>u \<in> sset rs. fst (burst st ps rs) ! k = pushed st (ps ! k) u"
proof (induction ps arbitrary: k rs)
  case Nil
  then show ?case by simp
next
  case (Cons p ps)
  show ?case
  proof (cases k)
    case 0
    have "fst (burst st (p # ps) rs) ! 0 = pushed st p (shd rs)"
      by (simp add: Let_def split_def pushed_def p5_random_range_def)
    then show ?thesis
      using 0 shd_sset [of rs] by auto
  next
    case (Suc j)
    then have j: "j < length ps"
      using Cons.prems by simp
    show ?thesis
    proof (cases "click_dist st p < 140")
      case True
      obtain u where "u \<in> sset (stl rs)" and "fst (burst st ps (stl rs)) ! j = pushed st (ps ! j) u"
        using Cons.IH [OF j, of "stl rs"] by blast
      then show ?thesis
        using True Suc stl_sset [of u rs]
        by (auto simp add: Let_def split_def p5_random_range_def)
    next
      case False
      obtain u where "u \<in> sset rs" and "fst (burst st ps rs) ! j = pushed st (ps ! j) u"
        using Cons.IH [OF j, of rs] by blast
      then show ?thesis
        using False Suc by (auto simp add: Let_def split_def)
    qed
  qed
qed

lemma mousePressed_particles:
  "particles (fst (mousePressed st rs)) =
     fst (burst (st\<lparr>shapeIndex := (shapeIndex st + 1) mod length (shapes st)\<rparr>) (particles st) rs)"
  by (simp add: mousePressed_def Let_def split_def)

lemma mousePressed_shapeIndex:
  "shapeIndex (fst (mousePressed st rs)) = (shapeIndex st + 1) mod length (shapes st)"
  by (simp add: mousePressed_def Let_def split_def)

lemma pushed_shapeIndex: "pushed (st\<lparr>shapeIndex := i\<rparr>) p u = pushed st p u"
  by (simp add: pushed_def click_dist_def)

lemma mousePressed_nth:
  assumes "k < length (particles st)"
  shows "\<exists>u \<in> sset rs. particles (fst (mousePressed st rs)) ! k = pushed st (particles st ! k) u"
  using burst_nth [OF assms, of rs "st\<lparr>shapeIndex := (shapeIndex st + 1) mod length (shapes st)\<rparr>"]
  by (simp add: mousePressed_particles pushed_shapeIndex)

lemma click_dist_same_y:
  "click_dist (sample_with ps mx b) (sample_particle a b) = \<bar>a - mx\<bar>"
  by (simp add: click_dist_def sample_with_def sample_particle_def p5_dist_same_y)

lemma pushed_at_pointer:
  assumes "pos p = createVector (mouseX st) (mouseY st)"
  shows "vel (pushed st p u) = vel p"
proof -
  have "Vector_mag (Vector_sub (pos p) (createVector (mouseX st) (mouseY st))) = 0"
    by (simp add: assms Vector_sub_def Vector_mag_def)
  then show ?thesis
    by (simp add: pushed_def Vector_setMag_zero Vector_add_def)
qed

text \<open>
  Claim C4, as stated, fails for a particle exactly under the pointer: its distance 0 is
  below 140, yet its velocity gains nothing, so the impulse does not have a magnitude
  in \<open>[0.6, 2.2]\<close>.
\<close>

theorem click_burst_misses_zero_distance:
  "unit_draws (sconst (1 / 2))
   \<and> click_dist (sample_with [sample_particle 0 0] 0 0) (sample_particle 0 0) < 140
   \<and> \<not> (0.6 \<le> Vector_mag
                 (Vector_sub
                    (vel (particles (fst (mousePressed (sample_with [sample_particle 0 0] 0 0) (sconst (1 / 2)))) ! 0))
                    (vel (sample_particle 0 0))))"
proof -
  let ?st = "sample_with [sample_particle 0 0] 0 0"
  have l: "0 < length (particles ?st)" and n: "particles ?st ! 0 = sample_particle 0 0"
    and e: "pos (sample_particle 0 0) = createVector (mouseX ?st) (mouseY ?st)"
    by (simp_all add: sample_with_def sample_sketch_def sample_particle_def)
  obtain u where "particles (fst (mousePressed ?st (sconst (1 / 2)))) ! 0 = pushed ?st (sample_particle 0 0) u"
    using mousePressed_nth [OF l, of "sconst (1 / 2)"] n by auto
  then have "vel (particles (fst (mousePressed ?st (sconst (1 / 2)))) ! 0) = vel (sample_particle 0 0)"
    using pushed_at_pointer [OF e] by simp
  then show ?thesis
    by (simp add: unit_draws_sconst click_dist_same_y Vector_sub_def Vector_mag_def)
qed

text \<open>
  Claim C4, amended. The click handler advances the shape index by one modulo the
  number of shapes and keeps every particle's position. A particle whose distance \<open>d\<close>
  to the pointer satisfies \<open>0 < d < 140\<close> gains the vector from the pointer to the
  particle scaled by \<open>r / d\<close>, for a random \<open>r\<close> in \<open>[0.6, 2.2]\<close>: an impulse of
  magnitude \<open>r\<close> directed away from the pointer. A particle at distance \<open>d \<ge> 140\<close>
  keeps its velocity.
\<close>

theorem click_burst:
  assumes "unit_draws rs" and "k < length (particles st)"
  shows "shapeIndex (fst (mousePressed st rs)) = (shapeIndex st + 1) mod length (shapes st)
       \<and> length (particles (fst (mousePressed st rs))) = length (particles st)
       \<and> pos (particles (fst (mousePressed st rs)) ! k) = pos (particles st ! k)
       \<and> (140 \<le> click_dist st (particles st ! k) \<longrightarrow>
            vel (particles (fst (mousePressed st rs)) ! k) = vel (particles st ! k))
       \<and> (0 < click_dist st (particles st ! k) \<and> click_dist st (particles st ! k) < 140 \<longrightarrow>
            (\<exists>r. 0.6 \<le> r \<and> r \<le> 2.2
               \<and> Vector_sub (vel (particles (fst (mousePressed st rs)) ! k)) (vel (particles st ! k))
                   = Vector_mult
                       (Vector_sub (pos (particles st ! k)) (createVector (mouseX st) (mouseY st)))
                       (r / click_dist st (particles st ! k))
               \<and> Vector_mag
                   (Vector_sub (vel (particles (fst (mousePressed st rs)) ! k)) (vel (particles st ! k)))
                   = r))"
proof -
  let ?p = "particles st ! k" and ?q = "particles (fst (mousePressed st rs)) ! k"
  obtain u where u: "u \<in> sset rs" and q: "?q = pushed st ?p u"
    using mousePressed_nth [OF assms(2)] by blast
  have ur: "0 \<le> u" "u < 1"
    using assms(1) u by (auto simp add: unit_draws_def)
  define r where "r = u * (2.2 - 0.6) + 0.6"
  have r: "0.6 \<le> r" "r \<le> 2.2"
    using ur by (simp_all add: r_def)
  have far: "vel ?q = vel ?p" if "140 \<le> click_dist st ?p"
    using that by (simp add: q pushed_def)
  have near: "Vector_sub (vel ?q) (vel ?p)
                = Vector_mult (Vector_sub (pos ?p) (createVector (mouseX st) (mouseY st)))
                    (r / click_dist st ?p)
              \<and> Vector_mag (Vector_sub (vel ?q) (vel ?p)) = r"
    if "0 < click_dist st ?p \<and> click_dist st ?p < 140"
  proof -
    have m: "0 < Vector_mag (Vector_sub (pos ?p) (createVector (mouseX st) (mouseY st)))"
      using that by (simp add: click_dist_mag)
    have "Vector_sub (vel ?q) (vel ?p)
            = Vector_setMag (Vector_sub (pos ?p) (createVector (mouseX st) (mouseY st))) r"
      using that by (simp add: q pushed_def r_def Vector_sub_add_cancel)
    then show ?thesis
      using m r(1) by (simp add: Vector_mag_setMag) (simp add: Vector_setMag_pos click_dist_mag)
  qed
  have same_pos: "pos ?q = pos ?p"
    by (simp add: q pushed_def)
  have len: "length (particles (fst (mousePressed st rs))) = length (particles st)"
    by (simp add: mousePressed_particles burst_length)
  show ?thesis
  proof (intro conjI impI)
    show "shapeIndex (fst (mousePressed st rs)) = (shapeIndex st + 1) mod length (shapes st)"
      by (rule mousePressed_shapeIndex)
    show "length (particles (fst (mousePressed st rs))) = length (particles st)"
      by (rule len)
    show "pos ?q = pos ?p"
      by (rule same_pos)
    show "vel ?q = vel ?p" if "140 \<le> click_dist st ?p"
      using that by (rule far)
    show "\<exists>r. 0.6 \<le> r \<and> r \<le> 2.2
               \<and> Vector_sub (vel ?q) (vel ?p)
                   = Vector_mult (Vector_sub (pos ?p) (createVector (mouseX st) (mouseY st)))
                       (r / click_dist st ?p)
               \<and> Vector_mag (Vector_sub (vel ?q) (vel ?p)) = r"
      if "0 < click_dist st ?p \<and> click_dist st ?p < 140"
      using near [OF that] r by blast
  qed
qed

theorem click_burst_witness:
  "unit_draws (sconst (1 / 2))
   \<and> 1 < length (particles (sample_with [sample_particle 100 0, sample_particle 500 0] 0 0))
   \<and> 0 < click_dist (sample_with [sample_particle 100 0, sample_particle 500 0] 0 0) (sample_particle 100 0)
   \<and> click_dist (sample_with [sample_particle 100 0, sample_particle 500 0] 0 0) (sample_particle 100 0) < 140
   \<and> (\<exists>r. 0.6 \<le> r \<and> r \<le> 2.2 \<and>
         Vector_mag
           (Vector_sub
              (vel (particles (fst (mousePressed (sample_with [sample_particle 100 0, sample_particle 500 0] 0 0)
                                      (sconst (1 / 2)))) ! 0))
              (vel (sample_particle 100 0))) = r)
   \<and> 140 \<le> click_dist (sample_with [sample_particle 100 0, sample_particle 500 0] 0 0) (sample_particle 500 0)
   \<and> vel (particles (fst (mousePressed (sample_with [sample_particle 100 0, sample_particle 500 0] 0 0)
                              (sconst (1 / 2)))) ! 1)
       = vel (sample_particle 500 0)
   \<and> shapeIndex (fst (mousePressed (sample_with [sample_particle 100 0, sample_particle 500 0] 0 0)
                         (sconst (1 / 2)))) = 1"
proof -
  let ?st = "sample_with [sample_particle 100 0, sample_particle 500 0] 0 0"
  have u: "unit_draws (sconst (1 / 2))"
    by (simp add: unit_draws_sconst)
  have l: "0 < length (particles ?st)" "1 < length (particles ?st)"
    and n: "particles ?st ! 0 = sample_particle 100 0" "particles ?st ! Suc 0 = sample_particle 500 0"
    and i: "shapeIndex ?st = 0" "length (shapes ?st) = 4"
    by (simp_all add: sample_with_def sample_sketch_def)
  show ?thesis
    using click_burst [OF u l(1)] click_burst [OF u l(2)] u l(2)
    by (simp add: n i click_dist_same_y)
qed

text \<open>
  Claim C9. For a particle whose position is the pointer position, the distance is 0,
  the impulse vector is the zero vector whatever magnitude is drawn, and the click
  leaves the particle's velocity as it was.
\<close>

theorem click_at_particle_no_impulse:
  assumes "k < length (particles st)"
    and "pos (particles st ! k) = createVector (mouseX st) (mouseY st)"
  shows "click_dist st (particles st ! k) = 0
       \<and> (\<forall>r. Vector_setMag
                 (Vector_sub (pos (particles st ! k)) (createVector (mouseX st) (mouseY st))) r
               = createVector 0 0)
       \<and> vel (particles (fst (mousePressed st rs)) ! k) = vel (particles st ! k)"
proof -
  let ?p = "particles st ! k"
  have z: "Vector_mag (Vector_sub (pos ?p) (createVector (mouseX st) (mouseY st))) = 0"
    by (simp add: assms(2) Vector_sub_def Vector_mag_def)
  have s: "Vector_setMag (Vector_sub (pos ?p) (createVector (mouseX st) (mouseY st))) r
             = createVector 0 0" for r
    using z by (rule Vector_setMag_zero)
  obtain u where "particles (fst (mousePressed st rs)) ! k = pushed st ?p u"
    using mousePressed_nth [OF assms(1)] by blast
  then have "vel (particles (fst (mousePressed st rs)) ! k) = vel ?p"
    by (simp add: pushed_def s Vector_add_def)
  then show ?thesis
    using z s by (simp add: click_dist_mag)
qed

theorem click_at_particle_no_impulse_witness:
  "0 < length (particles (sample_with [sample_particle 300 200, sample_particle 10 10] 300 200))
   \<and> pos (particles (sample_with [sample_particle 300 200, sample_particle 10 10] 300 200) ! 0)
       = createVector (mouseX (sample_with [sample_particle 300 200, sample_particle 10 10] 300 200))
                      (mouseY (sample_with [sample_particle 300 200, sample_particle 10 10] 300 200))
   \<and> vel (particles (fst (mousePressed (sample_with [sample_particle 300 200, sample_particle 10 10] 300 200)
                              (sconst (1 / 4)))) ! 0)
       = createVector 1 0"
proof -
  let ?st = "sample_with [sample_particle 300 200, sample_particle 10 10] 300 200"
  have l: "0 < length (particles ?st)"
    and e: "pos (particles ?st ! 0) = createVector (mouseX ?st) (mouseY ?st)"
    and v: "vel (particles ?st ! 0) = createVector 1 0"
    by (simp_all add: sample_with_def sample_sketch_def sample_particle_def)
  show ?thesis
    using click_at_particle_no_impulse [OF l e, of "sconst (1 / 4)"] l e v
    by simp
qed


section \<open>Reseeding\<close>

lemma reseed_all_length: "length (fst (reseed_all st ps rs)) = length ps"
  by (induction ps arbitrary: rs) (simp_all add: Let_def split_def)

lemma reseed_all_members:
  assumes "unit_draws rs" and "0 \<le> width st" and "0 \<le> height st"
    and "q \<in> set (fst (reseed_all st ps rs))"
  shows "0 \<le> vec_x (pos q) \<and> vec_x (pos q) \<le> width st
       \<and> 0 \<le> vec_y (pos q) \<and> vec_y (pos q) \<le> height st
       \<and> Vector_mag (vel q) = 0.2"
  using assms(1,4)
proof (induction ps arbitrary: rs)
  case Nil
  then show ?case by simp
next
  case (Cons p ps)
  let ?rs3 = "stl (stl (stl rs))"
  have u1: "0 \<le> shd rs \<and> shd rs < 1" and u2: "0 \<le> shd (stl rs) \<and> shd (stl rs) < 1"
    and u3: "unit_draws ?rs3"
    using Cons.prems(1) by (simp_all add: unit_draws_shd unit_draws_stl)
  have "q = p\<lparr>pos := createVector (shd rs * width st) (shd (stl rs) * height st),
               vel := Vector_mult (Vector_fromAngle (shd (stl (stl rs)) * TWO_PI)) 0.2\<rparr>
        \<or> q \<in> set (fst (reseed_all st ps ?rs3))"
    using Cons.prems(2)
    by (simp add: Let_def split_def p5_random_max_def Vector_random2D_def)
  then show ?case
  proof
    assume q: "q = p\<lparr>pos := createVector (shd rs * width st) (shd (stl rs) * height st),
               vel := Vector_mult (Vector_fromAngle (shd (stl (stl rs)) * TWO_PI)) 0.2\<rparr>"
    have "shd rs * width st \<le> width st" "shd (stl rs) * height st \<le> height st"
      using u1 u2 assms(2,3) by (simp_all add: mult_left_le_one_le)
    then show ?thesis
      using u1 u2 assms(2,3) by (simp add: q Vector_mag_mult Vector_mag_fromAngle)
  next
    assume "q \<in> set (fst (reseed_all st ps ?rs3))"
    then show ?thesis
      using Cons.IH [OF u3] by blast
  qed
qed

lemma keyPressed_reseed:
  "key = ''r'' \<or> key = ''R'' \<Longrightarrow>
     particles (fst (keyPressed key seeded st rs)) = fst (reseed_all st (particles st) seeded)"
  by (auto simp add: keyPressed_def Let_def split_def)

text \<open>
  Claim C5. After the reseed command (key \<^verbatim>\<open>r\<close> or \<^verbatim>\<open>R\<close>) on a canvas of
  non-negative width and height, there are as many particles as before, every
  particle's position satisfies \<open>0 \<le> x \<le> width\<close> and \<open>0 \<le> y \<le> height\<close>, and every
  particle's velocity has magnitude 0.2.
\<close>

theorem reseed_positions_velocities:
  assumes "key = ''r'' \<or> key = ''R''" and "unit_draws seeded"
    and "0 \<le> width st" and "0 \<le> height st"
  shows "length (particles (fst (keyPressed key seeded st rs))) = length (particles st)
       \<and> (\<forall>q \<in> set (particles (fst (keyPressed key seeded st rs))).
             0 \<le> vec_x (pos q) \<and> vec_x (pos q) \<le> width st
           \<and> 0 \<le> vec_y (pos q) \<and> vec_y (pos q) \<le> height st
           \<and> Vector_mag (vel q) = 0.2)"
  using reseed_all_members [OF assms(2,3,4)]
  by (simp add: keyPressed_reseed [OF assms(1)] reseed_all_length)

theorem reseed_positions_velocities_witness:
  "unit_draws (sconst (1 / 2))
   \<and> 0 \<le> width (sample_with [sample_particle 5 5, sample_particle 7 7] 0 0)
   \<and> 0 \<le> height (sample_with [sample_particle 5 5, sample_particle 7 7] 0 0)
   \<and> length (particles (fst (keyPressed ''r'' (sconst (1 / 2))
                                (sample_with [sample_particle 5 5, sample_particle 7 7] 0 0) (sconst 0)))) = 2
   \<and> pos (particles (fst (keyPressed ''r'' (sconst (1 / 2))
                                (sample_with [sample_particle 5 5, sample_particle 7 7] 0 0) (sconst 0))) ! 0)
       = createVector 500 350
   \<and> Vector_mag (vel (particles (fst (keyPressed ''r'' (sconst (1 / 2))
                                (sample_with [sample_particle 5 5, sample_particle 7 7] 0 0) (sconst 0))) ! 0))
       = 0.2
   \<and> Vector_mag (vel (particles (fst (keyPressed ''R'' (sconst (1 / 2))
                                (sample_with [sample_particle 5 5, sample_particle 7 7] 0 0) (sconst 0))) ! 1))
       = 0.2"
proof -
  let ?st = "sample_with [sample_particle 5 5, sample_particle 7 7] 0 0"
  let ?ps = "particles (fst (keyPressed ''r'' (sconst (1 / 2)) ?st (sconst 0)))"
  let ?qs = "particles (fst (keyPressed ''R'' (sconst (1 / 2)) ?st (sconst 0)))"
  have k: "''r'' = ''r'' \<or> ''r'' = ''R''" and k': "''R'' = ''r'' \<or> ''R'' = ''R''"
    by simp_all
  have u: "unit_draws (sconst (1 / 2))"
    by (simp add: unit_draws_sconst)
  have w: "0 \<le> width ?st" and h: "0 \<le> height ?st" and n: "length (particles ?st) = 2"
    by (simp_all add: sample_with_def sample_sketch_def)
  have p: "pos (?ps ! 0) = createVector 500 350"
    by (simp add: keyPressed_reseed sample_with_def sample_sketch_def Let_def split_def p5_random_max_def)
  have l: "length ?ps = 2" and l': "length ?qs = 2"
    using reseed_positions_velocities [OF k u w h, of "sconst 0"]
          reseed_positions_velocities [OF k' u w h, of "sconst 0"] n by simp_all
  have "?ps ! 0 \<in> set ?ps" and "?qs ! 1 \<in> set ?qs"
    using l l' by (simp_all only: nth_mem zero_less_numeral one_less_numeral_iff semiring_norm)
  then have "Vector_mag (vel (?ps ! 0)) = 0.2" and "Vector_mag (vel (?qs ! 1)) = 0.2"
    using reseed_positions_velocities [OF k u w h, of "sconst 0"]
          reseed_positions_velocities [OF k' u w h, of "sconst 0"] by blast+
  then show ?thesis
    using u w h l p by blast
qed


section \<open>Selecting a preset\<close>

lemma resize_all_length: "length (fst (resize_all pr ps rs)) = length ps"
  by (induction ps arbitrary: rs) (simp_all add: Let_def split_def)

lemma resize_all_rest: "unit_draws rs \<Longrightarrow> unit_draws (snd (resize_all pr ps rs))"
  by (induction ps arbitrary: rs) (simp_all add: Let_def split_def p5_random_range_def unit_draws_stl)

lemma resize_all_members:
  assumes "unit_draws rs" and "q \<in> set (fst (resize_all pr ps rs))"
  shows "\<exists>u. 0 \<le> u \<and> u < 1 \<and> psize q = num_times (preset_particleSize pr) (u * (1.5 - 0.7) + 0.7)"
  using assms
proof (induction ps arbitrary: rs)
  case Nil
  then show ?case by simp
next
  case (Cons p ps)
  have "q = p\<lparr>psize := num_times (preset_particleSize pr) (shd rs * (1.5 - 0.7) + 0.7)\<rparr>
        \<or> q \<in> set (fst (resize_all pr ps (stl rs)))"
    using Cons.prems(2) by (simp add: Let_def split_def p5_random_range_def)
  then show ?case
  proof
    assume "q = p\<lparr>psize := num_times (preset_particleSize pr) (shd rs * (1.5 - 0.7) + 0.7)\<rparr>"
    then show ?thesis
      using unit_draws_shd [OF Cons.prems(1)] by auto
  next
    assume "q \<in> set (fst (resize_all pr ps (stl rs)))"
    then show ?thesis
      using Cons.IH [OF unit_draws_stl [OF Cons.prems(1)]] by blast
  qed
qed

lemma applyPreset_fields:
  "presets (fst (applyPreset i st rs)) = presets st
   \<and> curPreset (fst (applyPreset i st rs)) = i
   \<and> preset (fst (applyPreset i st rs)) = presets_at (presets st) i
   \<and> particles (fst (applyPreset i st rs)) = fst (resize_all (presets_at (presets st) i) (particles st) rs)
   \<and> snd (applyPreset i st rs) = snd (resize_all (presets_at (presets st) i) (particles st) rs)"
  by (simp add: applyPreset_def Let_def split_def Object_assign_empty_def split: option.split)

lemma applyPreset_sizes:
  assumes "presets_at (presets st) i = Some c" and "0 \<le> particleSize c" and "unit_draws rs"
    and "q \<in> set (particles (fst (applyPreset i st rs)))"
  shows "\<exists>s. psize q = Num s \<and> 0.7 * particleSize c \<le> s \<and> s \<le> 1.5 * particleSize c
           \<and> (0 < particleSize c \<longrightarrow> s < 1.5 * particleSize c)"
proof -
  have "q \<in> set (fst (resize_all (Some c) (particles st) rs))"
    using assms(1,4) by (simp add: applyPreset_fields)
  then obtain u where u: "0 \<le> u" "u < 1"
    and q: "psize q = num_times (preset_particleSize (Some c)) (u * (1.5 - 0.7) + 0.7)"
    using resize_all_members [OF assms(3)] by blast
  define f where "f = u * (1.5 - 0.7) + (0.7::real)"
  have f: "0.7 \<le> f" "f < 1.5"
    using u by (simp_all add: f_def)
  have "psize q = Num (particleSize c * f)"
    by (simp add: q f_def num_times_def preset_particleSize_def)
  moreover have "0.7 * particleSize c \<le> particleSize c * f"
    using scale_lower [OF assms(2) f(1)] .
  moreover have "particleSize c * f \<le> 1.5 * particleSize c"
    using scale_upper [OF assms(2) less_imp_le [OF f(2)]] .
  moreover have "particleSize c * f < 1.5 * particleSize c" if "0 < particleSize c"
    using scale_upper_strict [OF that f(2)] .
  ultimately show ?thesis
    by blast
qed

lemma presets_at_nat:
  "k < length cs \<Longrightarrow> presets_at cs (Num (real k)) = Some (cs ! k)"
  by (simp add: presets_at_def)

lemma resize_all_nth:
  assumes "unit_draws rs" and "k < length ps"
  shows "\<exists>u. 0 \<le> u \<and> u < 1
           \<and> fst (resize_all pr ps rs) ! k
               = (ps ! k)\<lparr>psize := num_times (preset_particleSize pr) (u * (1.5 - 0.7) + 0.7)\<rparr>"
  using assms
proof (induction ps arbitrary: k rs)
  case Nil
  then show ?case by simp
next
  case (Cons p ps)
  show ?case
  proof (cases k)
    case 0
    have "fst (resize_all pr (p # ps) rs) ! 0
            = p\<lparr>psize := num_times (preset_particleSize pr) (shd rs * (1.5 - 0.7) + 0.7)\<rparr>"
      by (simp add: Let_def split_def p5_random_range_def)
    then show ?thesis
      using 0 unit_draws_shd [OF Cons.prems(1)] by auto
  next
    case (Suc j)
    then have j: "j < length ps"
      using Cons.prems(2) by simp
    have "fst (resize_all pr (p # ps) rs) ! Suc j = fst (resize_all pr ps (stl rs)) ! j"
      by (simp add: Let_def split_def p5_random_range_def)
    then show ?thesis
      using Cons.IH [OF unit_draws_stl [OF Cons.prems(1)] j] Suc by auto
  qed
qed

lemma applyPreset_nth:
  assumes "presets_at (presets st) i = Some c" and "0 \<le> particleSize c" and "unit_draws rs"
    and "k < length (particles st)"
  shows "\<exists>s. 0.7 * particleSize c \<le> s \<and> s \<le> 1.5 * particleSize c
           \<and> particles (fst (applyPreset i st rs)) ! k = (particles st ! k)\<lparr>psize := Num s\<rparr>"
proof -
  obtain u where u: "0 \<le> u" "u < 1"
    and q: "fst (resize_all (Some c) (particles st) rs) ! k
              = (particles st ! k)\<lparr>psize := num_times (preset_particleSize (Some c)) (u * (1.5 - 0.7) + 0.7)\<rparr>"
    using resize_all_nth [OF assms(3,4)] by blast
  define f where "f = u * (1.5 - 0.7) + (0.7::real)"
  have f: "0.7 \<le> f" "f < 1.5"
    using u by (simp_all add: f_def)
  have "particles (fst (applyPreset i st rs)) ! k = (particles st ! k)\<lparr>psize := Num (particleSize c * f)\<rparr>"
    using assms(1) by (simp add: applyPreset_fields q f_def num_times_def preset_particleSize_def)
  moreover have "0.7 * particleSize c \<le> particleSize c * f"
    using scale_lower [OF assms(2) f(1)] .
  moreover have "particleSize c * f \<le> 1.5 * particleSize c"
    using scale_upper [OF assms(2) less_imp_le [OF f(2)]] .
  ultimately show ?thesis
    by blast
qed

lemma applyPreset_length:
  "length (particles (fst (applyPreset i st rs))) = length (particles st)"
  by (simp add: applyPreset_fields resize_all_length)

lemma mousePressed_presets: "presets (fst (mousePressed st rs)) = presets st"
  by (simp add: mousePressed_def Let_def split_def)

lemma keyPressed_presets: "presets (fst (keyPressed key seeded st rs)) = presets st"
  by (simp add: keyPressed_def Let_def split_def applyPreset_fields)

text \<open>
  Claim C6. \<^verbatim>\<open>applyPreset(i)\<close> for an index \<open>i\<close> of the array installs a copy of
  template \<open>i\<close> and leaves the array of templates as it was; applied a second time with
  the same index it installs the same values again. After either call there are as
  many particles as before, each is the particle it was with only its size replaced,
  and that size lies in \<open>[0.7, 1.5]\<close> times the template's particle size (which is not
  negative). No later key press or click changes the array of templates either.
\<close>

theorem applyPreset_installs_copy:
  assumes "presets_at (presets st) i = Some c" and "0 \<le> particleSize c" and "unit_draws rs"
  shows "presets (fst (applyPreset i st rs)) = presets st
       \<and> preset (fst (applyPreset i st rs)) = Some c
       \<and> presets (fst (applyPreset i (fst (applyPreset i st rs)) (snd (applyPreset i st rs)))) = presets st
       \<and> preset (fst (applyPreset i (fst (applyPreset i st rs)) (snd (applyPreset i st rs)))) = Some c
       \<and> (\<forall>q \<in> set (particles (fst (applyPreset i st rs)))
               \<union> set (particles (fst (applyPreset i (fst (applyPreset i st rs)) (snd (applyPreset i st rs))))).
             \<exists>s. psize q = Num s \<and> 0.7 * particleSize c \<le> s \<and> s \<le> 1.5 * particleSize c)
       \<and> curPreset (fst (applyPreset i st rs)) = i
       \<and> length (particles (fst (applyPreset i st rs))) = length (particles st)
       \<and> length (particles (fst (applyPreset i (fst (applyPreset i st rs)) (snd (applyPreset i st rs)))))
           = length (particles st)
       \<and> (\<forall>k < length (particles st).
             \<exists>s. 0.7 * particleSize c \<le> s \<and> s \<le> 1.5 * particleSize c
                \<and> particles (fst (applyPreset i st rs)) ! k = (particles st ! k)\<lparr>psize := Num s\<rparr>)
       \<and> (\<forall>k < length (particles st).
             \<exists>s. 0.7 * particleSize c \<le> s \<and> s \<le> 1.5 * particleSize c
                \<and> particles (fst (applyPreset i (fst (applyPreset i st rs)) (snd (applyPreset i st rs)))) ! k
                    = (particles st ! k)\<lparr>psize := Num s\<rparr>)
       \<and> (\<forall>key seeded rs'. presets (fst (keyPressed key seeded (fst (applyPreset i st rs)) rs')) = presets st)
       \<and> (\<forall>rs'. presets (fst (mousePressed (fst (applyPreset i st rs)) rs')) = presets st)"
proof -
  let ?st1 = "fst (applyPreset i st rs)" and ?rs1 = "snd (applyPreset i st rs)"
  let ?st2 = "fst (applyPreset i ?st1 ?rs1)"
  have p1: "presets_at (presets ?st1) i = Some c"
    using assms(1) by (simp add: applyPreset_fields)
  have u1: "unit_draws ?rs1"
    using assms(3) by (simp add: applyPreset_fields resize_all_rest)
  have s1: "\<exists>s. psize q = Num s \<and> 0.7 * particleSize c \<le> s \<and> s \<le> 1.5 * particleSize c"
    if "q \<in> set (particles ?st1)" for q
    using applyPreset_sizes [OF assms(1,2,3) that] by blast
  have s2: "\<exists>s. psize q = Num s \<and> 0.7 * particleSize c \<le> s \<and> s \<le> 1.5 * particleSize c"
    if "q \<in> set (particles ?st2)" for q
    using applyPreset_sizes [OF p1 assms(2) u1 that] by blast
  have l1: "length (particles ?st1) = length (particles st)"
    by (rule applyPreset_length)
  have l2: "length (particles ?st2) = length (particles st)"
    by (simp add: applyPreset_length)
  have n1: "\<exists>s. 0.7 * particleSize c \<le> s \<and> s \<le> 1.5 * particleSize c
                \<and> particles ?st1 ! k = (particles st ! k)\<lparr>psize := Num s\<rparr>"
    if "k < length (particles st)" for k
    using applyPreset_nth [OF assms(1,2,3) that] .
  have n2: "\<exists>s. 0.7 * particleSize c \<le> s \<and> s \<le> 1.5 * particleSize c
                \<and> particles ?st2 ! k = (particles st ! k)\<lparr>psize := Num s\<rparr>"
    if kk: "k < length (particles st)" for k
  proof -
    have k1: "k < length (particles ?st1)"
      using kk l1 by simp
    obtain s where s: "0.7 * particleSize c \<le> s" "s \<le> 1.5 * particleSize c"
      and e: "particles ?st2 ! k = (particles ?st1 ! k)\<lparr>psize := Num s\<rparr>"
      using applyPreset_nth [OF p1 assms(2) u1 k1] by blast
    obtain s0 where "particles ?st1 ! k = (particles st ! k)\<lparr>psize := Num s0\<rparr>"
      using n1 [OF kk] by blast
    then have "particles ?st2 ! k = (particles st ! k)\<lparr>psize := Num s\<rparr>"
      using e by simp
    then show ?thesis
      using s by blast
  qed
  have f1: "presets ?st1 = presets st" "preset ?st1 = Some c" "curPreset ?st1 = i"
    using assms(1) by (simp_all add: applyPreset_fields)
  have f2: "presets ?st2 = presets st" "preset ?st2 = Some c"
    using assms(1) by (simp_all add: applyPreset_fields)
  have h: "presets (fst (keyPressed key seeded ?st1 rs')) = presets st"
       "presets (fst (mousePressed ?st1 rs')) = presets st" for key seeded rs'
    by (simp_all add: keyPressed_presets mousePressed_presets f1(1))
  have q12: "\<forall>q \<in> set (particles ?st1) \<union> set (particles ?st2).
               \<exists>s. psize q = Num s \<and> 0.7 * particleSize c \<le> s \<and> s \<le> 1.5 * particleSize c"
    using s1 s2 by blast
  have a1: "\<forall>k < length (particles st).
             \<exists>s. 0.7 * particleSize c \<le> s \<and> s \<le> 1.5 * particleSize c
                \<and> particles ?st1 ! k = (particles st ! k)\<lparr>psize := Num s\<rparr>"
    using n1 by blast
  have a2: "\<forall>k < length (particles st).
             \<exists>s. 0.7 * particleSize c \<le> s \<and> s \<le> 1.5 * particleSize c
                \<and> particles ?st2 ! k = (particles st ! k)\<lparr>psize := Num s\<rparr>"
    using n2 by blast
  have h1: "\<forall>key seeded rs'. presets (fst (keyPressed key seeded ?st1 rs')) = presets st"
    and h2: "\<forall>rs'. presets (fst (mousePressed ?st1 rs')) = presets st"
    using h by blast+
  from f1 f2 l1 l2 q12 a1 a2 h1 h2 show ?thesis
    by (intro conjI)
qed

theorem applyPreset_installs_copy_witness:
  "presets_at (presets (sample_with [sample_particle 1 1] 0 0)) (Num 2) = Some (setup_presets ! 2)
   \<and> 0 \<le> particleSize (setup_presets ! 2) \<and> unit_draws (sconst (1 / 2))
   \<and> preset (fst (applyPreset (Num 2) (sample_with [sample_particle 1 1] 0 0) (sconst (1 / 2))))
       = Some (setup_presets ! 2)
   \<and> preset (fst (applyPreset (Num 2)
                    (fst (applyPreset (Num 2) (sample_with [sample_particle 1 1] 0 0) (sconst (1 / 2))))
                    (snd (applyPreset (Num 2) (sample_with [sample_particle 1 1] 0 0) (sconst (1 / 2))))))
       = Some (setup_presets ! 2)
   \<and> presets (fst (applyPreset (Num 2) (sample_with [sample_particle 1 1] 0 0) (sconst (1 / 2))))
       = setup_presets
   \<and> length (particles (fst (applyPreset (Num 2) (sample_with [sample_particle 1 1] 0 0) (sconst (1 / 2))))) = 1
   \<and> particles (fst (applyPreset (Num 2) (sample_with [sample_particle 1 1] 0 0) (sconst (1 / 2)))) ! 0
       = (sample_particle 1 1)\<lparr>psize := Num (209 / 50)\<rparr>
   \<and> 0.7 * particleSize (setup_presets ! 2) \<le> 209 / 50
   \<and> 209 / 50 \<le> 1.5 * particleSize (setup_presets ! 2)
   \<and> length (particles (fst (applyPreset (Num 2)
                    (fst (applyPreset (Num 2) (sample_with [sample_particle 1 1] 0 0) (sconst (1 / 2))))
                    (snd (applyPreset (Num 2) (sample_with [sample_particle 1 1] 0 0) (sconst (1 / 2))))))) = 1"
proof -
  let ?st = "sample_with [sample_particle 1 1] 0 0"
  have p: "presets ?st = setup_presets" and ps: "particles ?st = [sample_particle 1 1]"
    by (simp_all add: sample_with_def sample_sketch_def)
  have a: "presets_at (presets ?st) (Num 2) = Some (setup_presets ! 2)"
    using presets_at_nat [of 2 setup_presets] by (simp add: p setup_presets_def)
  have b: "0 \<le> particleSize (setup_presets ! 2)" and b': "particleSize (setup_presets ! 2) = 19 / 5"
    by (simp_all add: setup_presets_def)
  have u: "unit_draws (sconst (1 / 2))"
    by (simp add: unit_draws_sconst)
  have e: "particles (fst (applyPreset (Num 2) ?st (sconst (1 / 2)))) ! 0
             = (sample_particle 1 1)\<lparr>psize := Num (209 / 50)\<rparr>"
    by (simp add: applyPreset_fields a ps b' Let_def split_def p5_random_range_def
          num_times_def preset_particleSize_def)
  have r: "0.7 * particleSize (setup_presets ! 2) \<le> 209 / 50"
          "209 / 50 \<le> 1.5 * particleSize (setup_presets ! 2)"
    by (simp_all add: b')
  have t: "presets (fst (applyPreset (Num 2) ?st (sconst (1 / 2)))) = presets ?st"
    "preset (fst (applyPreset (Num 2) ?st (sconst (1 / 2)))) = Some (setup_presets ! 2)"
    "preset (fst (applyPreset (Num 2) (fst (applyPreset (Num 2) ?st (sconst (1 / 2))))
                    (snd (applyPreset (Num 2) ?st (sconst (1 / 2)))))) = Some (setup_presets ! 2)"
    "length (particles (fst (applyPreset (Num 2) ?st (sconst (1 / 2))))) = length (particles ?st)"
    "length (particles (fst (applyPreset (Num 2) (fst (applyPreset (Num 2) ?st (sconst (1 / 2))))
                    (snd (applyPreset (Num 2) ?st (sconst (1 / 2))))))) = length (particles ?st)"
    using applyPreset_installs_copy [OF a b u] by blast+
  show ?thesis
    using t a b u e r by (simp add: p ps)
qed

lemma guard_chars:
  "CHR ''1'' \<le> c \<Longrightarrow> c \<le> CHR ''4'' \<Longrightarrow> c \<in> {CHR ''1'', CHR ''2'', CHR ''3'', CHR ''4''}"
  by (cases c) auto

lemma guard_iff:
  "(key \<ge> ''1'' \<and> key \<le> ''4'') \<longleftrightarrow>
     key = ''4'' \<or> (key \<noteq> [] \<and> hd key \<in> {CHR ''1'', CHR ''2'', CHR ''3''})"
proof (cases key)
  case Nil
  then show ?thesis by simp
next
  case (Cons c cs)
  show ?thesis
  proof
    assume g: "key \<ge> ''1'' \<and> key \<le> ''4''"
    then have "CHR ''1'' \<le> c" and "c \<le> CHR ''4''"
      using Cons by auto
    then have "c \<in> {CHR ''1'', CHR ''2'', CHR ''3'', CHR ''4''}"
      by (rule guard_chars)
    then show "key = ''4'' \<or> (key \<noteq> [] \<and> hd key \<in> {CHR ''1'', CHR ''2'', CHR ''3''})"
      using g Cons by auto
  next
    assume "key = ''4'' \<or> (key \<noteq> [] \<and> hd key \<in> {CHR ''1'', CHR ''2'', CHR ''3''})"
    then show "key \<ge> ''1'' \<and> key \<le> ''4''"
      using Cons by auto
  qed
qed

lemma p5_int_digits:
  "p5_int ''1'' = Num 1" "p5_int ''2'' = Num 2" "p5_int ''3'' = Num 3" "p5_int ''4'' = Num 4"
  by (simp_all add: p5_int_def is_space_def is_digit_def digit_val_def Let_def)

lemma keyPressed_reject:
  assumes "\<not> (key \<ge> ''1'' \<and> key \<le> ''4'')"
  shows "preset (fst (keyPressed key seeded st rs)) = preset st
       \<and> curPreset (fst (keyPressed key seeded st rs)) = curPreset st
       \<and> presets (fst (keyPressed key seeded st rs)) = presets st"
proof -
  have "keyPressed key seeded st rs =
          (if key = '' '' then (st\<lparr>mode := (if mode st = Wave then ParticleMode else Wave)\<rparr>, rs)
           else if key = ''s'' \<or> key = ''S'' then (st, rs)
           else if key = ''r'' \<or> key = ''R'' then
             (st\<lparr>particles := fst (reseed_all st (particles st) seeded)\<rparr>,
              snd (reseed_all st (particles st) seeded))
           else (st, rs))"
    using assms unfolding keyPressed_def by (simp only: if_False Let_def split_def)
  then show ?thesis
    by simp
qed

lemma keyPressed_select:
  assumes "key \<in> {''1'', ''2'', ''3'', ''4''}"
  shows "keyPressed key seeded st rs = applyPreset (num_minus (p5_int key) 1) st rs"
proof -
  have "key \<noteq> '' '' \<and> \<not> (key = ''s'' \<or> key = ''S'') \<and> (key \<ge> ''1'' \<and> key \<le> ''4'')"
    using assms by (elim insertE emptyE) simp_all
  then show ?thesis
    unfolding keyPressed_def by (simp only: if_True if_False simp_thms)
qed

lemma select_digit:
  assumes "k < length (presets st)" and "key \<in> {''1'', ''2'', ''3'', ''4''}"
    and "p5_int key = Num (real k + 1)"
  shows "preset (fst (keyPressed key seeded st rs)) = Some (presets st ! k)
       \<and> curPreset (fst (keyPressed key seeded st rs)) = Num (real k)
       \<and> presets (fst (keyPressed key seeded st rs)) = presets st"
  using assms(1)
  by (simp add: keyPressed_select [OF assms(2)] assms(3) num_minus_def applyPreset_fields presets_at_nat)

lemma guard_single:
  assumes "key \<ge> ''1'' \<and> key \<le> ''4''"
    and "\<not> (1 < length key \<and> hd key \<in> {CHR ''1'', CHR ''2'', CHR ''3''})"
  shows "key \<in> {''1'', ''2'', ''3'', ''4''}"
proof -
  have "key = ''4'' \<or> (key \<noteq> [] \<and> hd key \<in> {CHR ''1'', CHR ''2'', CHR ''3''})"
    using assms(1) by (simp only: guard_iff)
  then show ?thesis
  proof
    assume "key = ''4''"
    then show ?thesis by simp
  next
    assume h: "key \<noteq> [] \<and> hd key \<in> {CHR ''1'', CHR ''2'', CHR ''3''}"
    then obtain c where "key = [c]"
      using assms(2) by (cases key) auto
    then show ?thesis
      using h by auto
  qed
qed

lemma valid_preset_sample: "valid_preset sample_sketch"
  by (simp add: valid_preset_def sample_sketch_def setup_presets_def)

text \<open>
  Claim C8, as stated, fails: \<^verbatim>\<open>applyPreset\<close> does not check its index. With index 4
  it replaces the active preset by the empty object, which is none of the templates.
\<close>

theorem applyPreset_out_of_range:
  "\<not> valid_preset (fst (applyPreset (Num 4) sample_sketch (sconst 0)))"
  by (simp add: valid_preset_def applyPreset_fields presets_at_def sample_sketch_def setup_presets_def)

text \<open>
  Claim C8, amended. A request to select a preset reaches \<^verbatim>\<open>applyPreset\<close> only
  through the guard \<^verbatim>\<open>key >= "1" && key <= "4"\<close> of \<^verbatim>\<open>keyPressed\<close>. With four
  templates and an active preset that is a copy of one of them, for every key other
  than a string of several characters that begins with 1, 2 or 3: the active preset
  after the key press is again a copy of a template; a key that is not one of 1, 2, 3,
  4 (so every request for an index outside 0..3) is rejected silently, leaving the
  active preset and \<^verbatim>\<open>curPreset\<close> unchanged; and the keys 1, 2, 3, 4 install the
  templates 0, 1, 2, 3.
\<close>

theorem key_preset_guard:
  assumes "valid_preset st" and "length (presets st) = 4"
    and "\<not> (1 < length key \<and> hd key \<in> {CHR ''1'', CHR ''2'', CHR ''3''})"
  shows "valid_preset (fst (keyPressed key seeded st rs))
       \<and> (key \<notin> {''1'', ''2'', ''3'', ''4''} \<longrightarrow>
            preset (fst (keyPressed key seeded st rs)) = preset st
          \<and> curPreset (fst (keyPressed key seeded st rs)) = curPreset st)
       \<and> (key = ''1'' \<longrightarrow>
            preset (fst (keyPressed key seeded st rs)) = Some (presets st ! 0)
          \<and> curPreset (fst (keyPressed key seeded st rs)) = Num 0)
       \<and> (key = ''2'' \<longrightarrow>
            preset (fst (keyPressed key seeded st rs)) = Some (presets st ! 1)
          \<and> curPreset (fst (keyPressed key seeded st rs)) = Num 1)
       \<and> (key = ''3'' \<longrightarrow>
            preset (fst (keyPressed key seeded st rs)) = Some (presets st ! 2)
          \<and> curPreset (fst (keyPressed key seeded st rs)) = Num 2)
       \<and> (key = ''4'' \<longrightarrow>
            preset (fst (keyPressed key seeded st rs)) = Some (presets st ! 3)
          \<and> curPreset (fst (keyPressed key seeded st rs)) = Num 3)"
proof -
  let ?st' = "fst (keyPressed key seeded st rs)"
  have s1: "preset ?st' = Some (presets st ! 0) \<and> curPreset ?st' = Num 0 \<and> presets ?st' = presets st"
    if "key = ''1''"
    using select_digit [of 0 st key seeded rs] assms(2) that by (simp add: p5_int_digits)
  have s2: "preset ?st' = Some (presets st ! 1) \<and> curPreset ?st' = Num 1 \<and> presets ?st' = presets st"
    if "key = ''2''"
    using select_digit [of 1 st key seeded rs] assms(2) that by (simp add: p5_int_digits)
  have s3: "preset ?st' = Some (presets st ! 2) \<and> curPreset ?st' = Num 2 \<and> presets ?st' = presets st"
    if "key = ''3''"
    using select_digit [of 2 st key seeded rs] assms(2) that by (simp add: p5_int_digits)
  have s4: "preset ?st' = Some (presets st ! 3) \<and> curPreset ?st' = Num 3 \<and> presets ?st' = presets st"
    if "key = ''4''"
    using select_digit [of 3 st key seeded rs] assms(2) that by (simp add: p5_int_digits)
  have rej: "preset ?st' = preset st \<and> curPreset ?st' = curPreset st \<and> presets ?st' = presets st"
    if "key \<notin> {''1'', ''2'', ''3'', ''4''}"
  proof -
    have "\<not> (key \<ge> ''1'' \<and> key \<le> ''4'')"
      using guard_single [OF _ assms(3)] that by blast
    then show ?thesis
      by (rule keyPressed_reject)
  qed
  have "valid_preset ?st'"
  proof (cases "key \<in> {''1'', ''2'', ''3'', ''4''}")
    case True
    then consider "key = ''1''" | "key = ''2''" | "key = ''3''" | "key = ''4''"
      by blast
    then show ?thesis
    proof cases
      case 1
      then show ?thesis using s1 assms(2) by (simp add: valid_preset_def)
    next
      case 2
      then show ?thesis using s2 assms(2) by (simp add: valid_preset_def)
    next
      case 3
      then show ?thesis using s3 assms(2) by (simp add: valid_preset_def)
    next
      case 4
      then show ?thesis using s4 assms(2) by (simp add: valid_preset_def)
    qed
  next
    case False
    then show ?thesis
      using rej assms(1) by (simp add: valid_preset_def)
  qed
  then show ?thesis
    using s1 s2 s3 s4 rej by blast
qed

theorem key_preset_guard_witness:
  "valid_preset sample_sketch \<and> length (presets sample_sketch) = 4
   \<and> \<not> (1 < length ''5'' \<and> hd ''5'' \<in> {CHR ''1'', CHR ''2'', CHR ''3''})
   \<and> ''5'' \<notin> {''1'', ''2'', ''3'', ''4''}
   \<and> preset (fst (keyPressed ''5'' (sconst 0) sample_sketch (sconst 0))) = preset sample_sketch
   \<and> curPreset (fst (keyPressed ''5'' (sconst 0) sample_sketch (sconst 0))) = Num 0
   \<and> valid_preset (fst (keyPressed ''5'' (sconst 0) sample_sketch (sconst 0)))
   \<and> \<not> (1 < length ''3'' \<and> hd ''3'' \<in> {CHR ''1'', CHR ''2'', CHR ''3''})
   \<and> preset (fst (keyPressed ''3'' (sconst 0) sample_sketch (sconst 0))) = Some (setup_presets ! 2)
   \<and> curPreset (fst (keyPressed ''3'' (sconst 0) sample_sketch (sconst 0))) = Num 2"
proof -
  have v: "valid_preset sample_sketch"
    by (rule valid_preset_sample)
  have l: "length (presets sample_sketch) = 4" and c: "curPreset sample_sketch = Num 0"
    and p: "presets sample_sketch = setup_presets"
    by (simp_all add: sample_sketch_def setup_presets_def)
  have k5: "\<not> (1 < length ''5'' \<and> hd ''5'' \<in> {CHR ''1'', CHR ''2'', CHR ''3''})"
    and k3: "\<not> (1 < length ''3'' \<and> hd ''3'' \<in> {CHR ''1'', CHR ''2'', CHR ''3''})"
    by simp_all
  show ?thesis
    using key_preset_guard [OF v l k5, of "sconst 0" "sconst 0"]
          key_preset_guard [OF v l k3, of "sconst 0" "sconst 0"] v l
    by (simp add: c p)
qed


section \<open>Sizes at construction\<close>

lemma new_Particle_psize:
  "psize (fst (new_Particle st rs)) =
     num_times (preset_particleSize (preset st)) (shd (sdrop 5 rs) * (1.6 - 0.7) + 0.7)"
  by (simp add: new_Particle_def Let_def split_def p5_random_def p5_random_max_def
        p5_random_range_def Vector_random2D_def eval_nat_numeral)

text \<open>
  Claim C10. With an active preset of positive particle size, the constructor gives a
  particle a size in \<open>[0.7, 1.6)\<close> times that particle size, whereas every particle
  after \<^verbatim>\<open>applyPreset\<close> with the same template has a size in \<open>[0.7, 1.5)\<close> times it;
  and some construction yields a size above 1.5 times the particle size, larger than
  any size after a preset selection.
\<close>

theorem constructor_size_wider:
  assumes "preset st = Some c" and "0 < particleSize c"
  shows "(\<forall>rs. unit_draws rs \<longrightarrow>
            (\<exists>s. psize (fst (new_Particle st rs)) = Num s
               \<and> 0.7 * particleSize c \<le> s \<and> s < 1.6 * particleSize c))
       \<and> (\<forall>st' i rs. unit_draws rs \<and> presets_at (presets st') i = Some c \<longrightarrow>
            (\<forall>q \<in> set (particles (fst (applyPreset i st' rs))).
               \<exists>s. psize q = Num s \<and> 0.7 * particleSize c \<le> s \<and> s < 1.5 * particleSize c))
       \<and> (\<exists>rs. unit_draws rs
               \<and> (\<exists>s. psize (fst (new_Particle st rs)) = Num s \<and> 1.5 * particleSize c < s))"
proof (intro conjI allI impI ballI)
  fix rs
  assume u: "unit_draws rs"
  define f where "f = shd (sdrop 5 rs) * (1.6 - 0.7) + (0.7::real)"
  have "0 \<le> shd (sdrop 5 rs) \<and> shd (sdrop 5 rs) < 1"
    using unit_draws_shd [OF unit_draws_sdrop [OF u]] .
  then have f: "0.7 \<le> f" "f < 1.6"
    by (simp_all add: f_def)
  have "psize (fst (new_Particle st rs)) = Num (particleSize c * f)"
    by (simp add: new_Particle_psize assms(1) f_def num_times_def preset_particleSize_def)
  moreover have "0.7 * particleSize c \<le> particleSize c * f"
    using scale_lower [OF less_imp_le [OF assms(2)] f(1)] .
  moreover have "particleSize c * f < 1.6 * particleSize c"
    using scale_upper_strict [OF assms(2) f(2)] .
  ultimately show "\<exists>s. psize (fst (new_Particle st rs)) = Num s
               \<and> 0.7 * particleSize c \<le> s \<and> s < 1.6 * particleSize c"
    by blast
next
  fix st' i rs q
  assume h: "unit_draws rs \<and> presets_at (presets st') i = Some c"
    and q: "q \<in> set (particles (fst (applyPreset i st' rs)))"
  show "\<exists>s. psize q = Num s \<and> 0.7 * particleSize c \<le> s \<and> s < 1.5 * particleSize c"
    using applyPreset_sizes [OF conjunct2 [OF h] less_imp_le [OF assms(2)] conjunct1 [OF h] q] assms(2)
    by blast
next
  define f where "f = (19 / 20) * (1.6 - 0.7) + (0.7::real)"
  have f: "1.5 < f"
    by (simp add: f_def)
  have "psize (fst (new_Particle st (sconst (19 / 20)))) = Num (particleSize c * f)"
    by (simp add: new_Particle_psize assms(1) f_def num_times_def preset_particleSize_def)
  moreover have "1.5 * particleSize c < particleSize c * f"
    using assms(2) f by (simp add: mult.commute)
  moreover have "unit_draws (sconst (19 / 20))"
    by (simp add: unit_draws_sconst)
  ultimately show "\<exists>rs. unit_draws rs
               \<and> (\<exists>s. psize (fst (new_Particle st rs)) = Num s \<and> 1.5 * particleSize c < s)"
    by blast
qed

theorem constructor_size_wider_witness:
  "preset sample_sketch = Some (setup_presets ! 0) \<and> 0 < particleSize (setup_presets ! 0)
   \<and> unit_draws (sconst (19 / 20))
   \<and> psize (fst (new_Particle sample_sketch (sconst (19 / 20)))) = Num (933 / 200)
   \<and> 1.5 * particleSize (setup_presets ! 0) < 933 / 200
   \<and> (\<exists>s. psize (fst (new_Particle sample_sketch (sconst (19 / 20)))) = Num s
          \<and> 0.7 * particleSize (setup_presets ! 0) \<le> s \<and> s < 1.6 * particleSize (setup_presets ! 0))"
proof -
  have a: "preset sample_sketch = Some (setup_presets ! 0)"
    by (simp add: sample_sketch_def)
  have b: "0 < particleSize (setup_presets ! 0)" and b': "particleSize (setup_presets ! 0) = 3"
    by (simp_all add: setup_presets_def)
  have u: "unit_draws (sconst (19 / 20))"
    by (simp add: unit_draws_sconst)
  have s: "psize (fst (new_Particle sample_sketch (sconst (19 / 20)))) = Num (933 / 200)"
    by (simp add: new_Particle_psize a b' num_times_def preset_particleSize_def)
  have c: "1.5 * particleSize (setup_presets ! 0) < 933 / 200"
    by (simp add: b')
  have t: "\<exists>s. psize (fst (new_Particle sample_sketch (sconst (19 / 20)))) = Num s
          \<and> 0.7 * particleSize (setup_presets ! 0) \<le> s \<and> s < 1.6 * particleSize (setup_presets ! 0)"
    using constructor_size_wider [OF a b] u by blast
  show ?thesis
    using a b u s c t by blast
qed

end
